theory Spec2Isabelle
  imports Main "HOL-Library.Word" "HOL-Library.Monad_Syntax"
begin

unbundle bit_operations_syntax

section \<open>The Go run-time notions the packages rely on\<close>

text \<open>
  The packages \<open>buffers\<close> and \<open>pvrz\<close> are embedded as functions on explicit state.
  A method of \<open>*Buffer\<close> takes the \<open>Buffer\<close> and returns the updated one next to its
  result. Every function returns an \<open>option\<close>: \<open>None\<close> stands for a run-time panic of
  Go (slice bounds out of range, index out of range, a length out of range in
  \<open>make\<close> or \<open>append\<close>), \<open>Some\<close> for a normal return.

  Go's \<open>int\<close> has 64 bits on the targets of the package; sums, differences and
  products wrap around. They are written on \<open>int\<close> with the wrap-around spelled out.
\<close>

type_synonym byte = "8 word"

definition wrap64 :: "int \<Rightarrow> int" where
  "wrap64 x = (x + 2 ^ 63) mod 2 ^ 64 - 2 ^ 63"

definition add64 :: "int \<Rightarrow> int \<Rightarrow> int" where
  "add64 a b = wrap64 (a + b)"

definition sub64 :: "int \<Rightarrow> int \<Rightarrow> int" where
  "sub64 a b = wrap64 (a - b)"

definition mul64 :: "int \<Rightarrow> int \<Rightarrow> int" where
  "mul64 a b = wrap64 (a * b)"

text \<open>The values a variable of type \<open>int\<close> can hold.\<close>

definition is_int :: "int \<Rightarrow> bool" where
  "is_int x \<longleftrightarrow> - (2 ^ 63) \<le> x \<and> x < 2 ^ 63"

text \<open>\<open>len(s)\<close>.\<close>

definition len :: "'a list \<Rightarrow> int" where
  "len s = int (length s)"

text \<open>
  The slice expression \<open>s[lo:hi]\<close> where \<open>hi\<close> does not exceed \<open>len(s)\<close>; it panics
  unless \<open>0 \<le> lo \<le> hi\<close>. (Go admits \<open>hi\<close> up to the capacity; the one place of the
  packages that reslices beyond the length is described at \<open>DeleteBytes\<close>.)
\<close>

definition go_slice :: "'a list \<Rightarrow> int \<Rightarrow> int \<Rightarrow> 'a list option" where
  "go_slice s lo hi =
     (if 0 \<le> lo \<and> lo \<le> hi \<and> hi \<le> len s
      then Some (take (nat (hi - lo)) (drop (nat lo) s))
      else None)"

text \<open>
  The built-in \<open>copy(dst, src)\<close>: the first \<open>min(len(dst), len(src))\<close> elements of
  \<open>dst\<close> are overwritten; the result is the new content of \<open>dst\<close>. Overlapping
  operands are handled as by \<open>memmove\<close>, so \<open>src\<close> is the content before the call.
\<close>

definition go_copy :: "'a list \<Rightarrow> 'a list \<Rightarrow> 'a list" where
  "go_copy dst src =
     take (min (length dst) (length src)) src @ drop (min (length dst) (length src)) dst"

text \<open>
  \<open>copy(s[lo:hi], src)\<close> seen from \<open>s\<close>: the elements outside \<open>[lo, hi)\<close> stay, the
  window receives \<open>copy\<close>. Panics as the slice expression does.
\<close>

definition copy_into :: "'a list \<Rightarrow> int \<Rightarrow> int \<Rightarrow> 'a list \<Rightarrow> 'a list option" where
  "copy_into s lo hi src =
     do { d \<leftarrow> go_slice s lo hi;
          Some (take (nat lo) s @ go_copy d src @ drop (nat hi) s) }"

text \<open>
  \<open>make([]byte, n)\<close>: \<open>n\<close> zero bytes; a negative length panics. Memory is taken to be
  sufficient.
\<close>

definition go_make :: "int \<Rightarrow> byte list option" where
  "go_make n = (if n < 0 then None else Some (replicate (nat n) 0))"

text \<open>
  \<open>append(s, t...)\<close>: panics when the new length is not an \<open>int\<close>. Whether the backing
  array is reused or reallocated does not change the content of the result.
\<close>

definition go_append :: "'a list \<Rightarrow> 'a list \<Rightarrow> 'a list option" where
  "go_append s t = (if is_int (len s + len t) then Some (s @ t) else None)"

text \<open>The index expression \<open>s[i]\<close> and the assignment \<open>s[i] = v\<close>; both panic out of range.\<close>

definition go_index :: "'a list \<Rightarrow> int \<Rightarrow> 'a option" where
  "go_index s i = (if 0 \<le> i \<and> i < len s then Some (s ! nat i) else None)"

definition go_store :: "'a list \<Rightarrow> int \<Rightarrow> 'a \<Rightarrow> 'a list option" where
  "go_store s i v = (if 0 \<le> i \<and> i < len s then Some (s[nat i := v]) else None)"

text \<open>
  \<open>encoding/binary\<close>, \<open>LittleEndian\<close>: \<open>Uint16\<close>, \<open>Uint32\<close>, \<open>PutUint16\<close> and
  \<open>PutUint32\<close>. Each starts with a bounds check on the last byte it touches. The
  \<open>Put\<close> functions return the new content of their slice argument.
\<close>

definition LE_Uint16 :: "byte list \<Rightarrow> 16 word option" where
  "LE_Uint16 s =
     do { b1 \<leftarrow> go_index s 1;
          b0 \<leftarrow> go_index s 0;
          Some (ucast b0 OR push_bit 8 (ucast b1)) }"

definition LE_Uint32 :: "byte list \<Rightarrow> 32 word option" where
  "LE_Uint32 s =
     do { b3 \<leftarrow> go_index s 3;
          b0 \<leftarrow> go_index s 0;
          b1 \<leftarrow> go_index s 1;
          b2 \<leftarrow> go_index s 2;
          Some (ucast b0 OR push_bit 8 (ucast b1) OR push_bit 16 (ucast b2)
                OR push_bit 24 (ucast b3)) }"

definition LE_PutUint16 :: "byte list \<Rightarrow> 16 word \<Rightarrow> byte list option" where
  "LE_PutUint16 s v =
     do { _ \<leftarrow> go_index s 1;
          s0 \<leftarrow> go_store s 0 (ucast v);
          go_store s0 1 (ucast (drop_bit 8 v)) }"

definition LE_PutUint32 :: "byte list \<Rightarrow> 32 word \<Rightarrow> byte list option" where
  "LE_PutUint32 s v =
     do { _ \<leftarrow> go_index s 3;
          s0 \<leftarrow> go_store s 0 (ucast v);
          s1 \<leftarrow> go_store s0 1 (ucast (drop_bit 8 v));
          s2 \<leftarrow> go_store s1 2 (ucast (drop_bit 16 v));
          go_store s2 3 (ucast (drop_bit 24 v)) }"

section \<open>Package ietools: the error values\<close>

text \<open>
  \<open>ErrOffsetOutOfRange\<close> and \<open>ErrIllegalArguments\<close> are the two error values of the
  package (package \<open>pvrz\<close> declares its own \<open>ErrIllegalArguments\<close> with the same text).
  \<open>ErrMsg\<close> is an error made by \<open>errors.New\<close> or handed over by a library
  (\<open>compress/zlib\<close>, an \<open>io.Writer\<close>, the character map), \<open>ErrFmt\<close> one made by
  \<open>fmt.Errorf\<close>, kept as the format string and its arguments.
\<close>

datatype error =
    ErrOffsetOutOfRange
  | ErrIllegalArguments
  | ErrMsg string
  | ErrFmt string "int list"

text \<open>
  A character map of \<open>golang.org/x/text/encoding/charmap\<close> is outside the repository. It
  is taken as its two conversions on byte strings (a Go string is a sequence of bytes):
  what \<open>NewDecoder().Bytes\<close> and \<open>NewEncoder().Bytes\<close> return.
\<close>

record charmap =
  decoder_Bytes :: "byte list \<Rightarrow> error + byte list"
  encoder_Bytes :: "byte list \<Rightarrow> error + byte list"

text \<open>
  \<open>AnsiToUtf8\<close> and \<open>Utf8ToAnsi\<close>. The first argument after the text is \<open>charmap.Windows1252\<close>,
  used for a nil character map.
\<close>

definition AnsiToUtf8 ::
  "charmap \<Rightarrow> byte list \<Rightarrow> charmap option \<Rightarrow> byte list \<times> error option" where
  "AnsiToUtf8 Windows1252 buffer cm =
     (if buffer = [] then ([], None)
      else
        (let cm' = (case cm of None \<Rightarrow> Windows1252 | Some c \<Rightarrow> c)
         in case decoder_Bytes cm' buffer of
              Inl e \<Rightarrow> ([], Some e)
            | Inr out \<Rightarrow> (out, None)))"

definition Utf8ToAnsi ::
  "charmap \<Rightarrow> byte list \<Rightarrow> charmap option \<Rightarrow> byte list \<times> error option" where
  "Utf8ToAnsi Windows1252 text cm =
     (let cm' = (case cm of None \<Rightarrow> Windows1252 | Some c \<Rightarrow> c)
      in case encoder_Bytes cm' text of
           Inl e \<Rightarrow> ([], Some e)
         | Inr out \<Rightarrow> (out, None))"

section \<open>Package buffers\<close>

record Buffer =
  buf :: "byte list"
  dirty :: bool
  err :: "error option"

text \<open>\<open>Wrap\<close>; the argument \<open>None\<close> is the nil slice.\<close>

definition Wrap :: "byte list option \<Rightarrow> Buffer" where
  "Wrap b =
     (let b' = (case b of None \<Rightarrow> replicate 256 0 | Some s \<Rightarrow> s)
      in \<lparr>buf = b', dirty = False, err = None\<rparr>)"

definition Create :: Buffer where
  "Create = Wrap None"

definition Bytes :: "Buffer \<Rightarrow> byte list" where
  "Bytes b = (if err b \<noteq> None then [] else buf b)"

definition Error :: "Buffer \<Rightarrow> error option" where
  "Error b = err b"

definition ClearError :: "Buffer \<Rightarrow> Buffer" where
  "ClearError b = b\<lparr>err := None\<rparr>"

definition BufferLength :: "Buffer \<Rightarrow> int" where
  "BufferLength b = len (buf b)"

definition IsModified :: "Buffer \<Rightarrow> bool" where
  "IsModified b = dirty b"

definition ClearModified :: "Buffer \<Rightarrow> Buffer" where
  "ClearModified b = b\<lparr>dirty := False\<rparr>"

text \<open>
  \<open>Load\<close> and \<open>Save\<close>. The reader is taken as the result of \<open>ioutil.ReadAll\<close> on it, the
  writer as a state \<open>'w\<close> with its method \<open>Write\<close>, which returns the error and the new
  state of the writer.
\<close>

definition Load :: "byte list \<times> error option \<Rightarrow> Buffer" where
  "Load r = \<lparr>buf = fst r, dirty = False, err = snd r\<rparr>"

definition Save ::
  "(byte list \<Rightarrow> 'w \<Rightarrow> error option \<times> 'w) \<Rightarrow> 'w \<Rightarrow> Buffer \<Rightarrow> Buffer \<times> 'w" where
  "Save Write w b =
     (if err b \<noteq> None then (b, w)
      else
        (let (e, w') = Write (buf b) w;
             b' = b\<lparr>err := e\<rparr>
         in if e = None then (b'\<lparr>dirty := False\<rparr>, w') else (b', w')))"

text \<open>
  The typed readers. \<open>int8\<close>, \<open>int16\<close> and \<open>int32\<close> are the words of the same width read
  as two's complement (\<open>sint\<close>), so the conversions between \<open>uintN\<close> and \<open>intN\<close> keep
  the word.
\<close>

definition GetUint8 :: "int \<Rightarrow> Buffer \<Rightarrow> (8 word \<times> Buffer) option" where
  "GetUint8 offset b =
     (if err b \<noteq> None then Some (0, b)
      else if offset < 0 \<or> offset \<ge> len (buf b)
        then Some (0, b\<lparr>err := Some ErrOffsetOutOfRange\<rparr>)
      else do { v \<leftarrow> go_index (buf b) offset; Some (v, b) })"

definition GetInt8 :: "int \<Rightarrow> Buffer \<Rightarrow> (8 word \<times> Buffer) option" where
  "GetInt8 offset b = GetUint8 offset b"

definition GetUint16 :: "int \<Rightarrow> Buffer \<Rightarrow> (16 word \<times> Buffer) option" where
  "GetUint16 offset b =
     (if err b \<noteq> None then Some (0, b)
      else if offset < 0 \<or> add64 offset 2 > len (buf b)
        then Some (0, b\<lparr>err := Some ErrOffsetOutOfRange\<rparr>)
      else do { s \<leftarrow> go_slice (buf b) offset (len (buf b));
                v \<leftarrow> LE_Uint16 s;
                Some (v, b) })"

definition GetInt16 :: "int \<Rightarrow> Buffer \<Rightarrow> (16 word \<times> Buffer) option" where
  "GetInt16 offset b = GetUint16 offset b"

definition GetUint32 :: "int \<Rightarrow> Buffer \<Rightarrow> (32 word \<times> Buffer) option" where
  "GetUint32 offset b =
     (if err b \<noteq> None then Some (0, b)
      else if offset < 0 \<or> add64 offset 4 > len (buf b)
        then Some (0, b\<lparr>err := Some ErrOffsetOutOfRange\<rparr>)
      else do { s \<leftarrow> go_slice (buf b) offset (len (buf b));
                v \<leftarrow> LE_Uint32 s;
                Some (v, b) })"

definition GetInt32 :: "int \<Rightarrow> Buffer \<Rightarrow> (32 word \<times> Buffer) option" where
  "GetInt32 offset b = GetUint32 offset b"

text \<open>\<open>GetUint\<close> and \<open>GetInt\<close> widen to \<open>uint\<close> and \<open>int\<close>: the value of the word, unsigned or signed.\<close>

definition GetUint :: "int \<Rightarrow> int \<Rightarrow> Buffer \<Rightarrow> (int \<times> Buffer) option" where
  "GetUint offset bitsize b =
     (if bitsize \<le> 8 then do { (v, b') \<leftarrow> GetUint8 offset b; Some (uint v, b') }
      else if bitsize \<le> 16 then do { (v, b') \<leftarrow> GetUint16 offset b; Some (uint v, b') }
      else do { (v, b') \<leftarrow> GetUint32 offset b; Some (uint v, b') })"

definition GetInt :: "int \<Rightarrow> int \<Rightarrow> Buffer \<Rightarrow> (int \<times> Buffer) option" where
  "GetInt offset bitsize b =
     (if bitsize \<le> 8 then do { (v, b') \<leftarrow> GetInt8 offset b; Some (sint v, b') }
      else if bitsize \<le> 16 then do { (v, b') \<leftarrow> GetInt16 offset b; Some (sint v, b') }
      else do { (v, b') \<leftarrow> GetInt32 offset b; Some (sint v, b') })"

text \<open>
  The loop of \<open>GetStringEx\<close> that looks for the first zero byte of the field: \<open>idx\<close>
  runs from its argument up to \<open>size\<close>; \<open>dflt\<close> is the whole field, kept when no zero
  byte is found.
\<close>

function null_scan :: "byte list \<Rightarrow> int \<Rightarrow> int \<Rightarrow> int \<Rightarrow> byte list \<Rightarrow> byte list option" where
  "null_scan a offset sz idx dflt =
     (if idx < sz then
        do { c \<leftarrow> go_index a (add64 offset idx);
             if c = 0 then go_slice a offset (add64 offset idx)
             else null_scan a offset sz (idx + 1) dflt }
      else Some dflt)"
  by pat_completeness auto
termination
  by (relation "measure (\<lambda>(a, offset, sz, idx, dflt). nat (sz - idx))") auto

definition GetStringEx ::
  "charmap \<Rightarrow> int \<Rightarrow> int \<Rightarrow> bool \<Rightarrow> charmap option \<Rightarrow> Buffer \<Rightarrow> (byte list \<times> Buffer) option" where
  "GetStringEx Windows1252 offset sz null cmap b =
     (if err b \<noteq> None then Some ([], b)
      else if sz \<le> 0 then Some ([], b)
      else if offset < 0 \<or> add64 offset sz > len (buf b)
        then Some ([], b\<lparr>err := Some ErrOffsetOutOfRange\<rparr>)
      else
        do { buf0 \<leftarrow> go_slice (buf b) offset (add64 offset sz);
             buf1 \<leftarrow> (if null then null_scan (buf b) offset sz 0 buf0 else Some buf0);
             if cmap \<noteq> None then
               (let (s, e) = AnsiToUtf8 Windows1252 buf1 cmap in Some (s, b\<lparr>err := e\<rparr>))
             else Some (buf1, b) })"

definition GetString ::
  "charmap \<Rightarrow> int \<Rightarrow> int \<Rightarrow> bool \<Rightarrow> Buffer \<Rightarrow> (byte list \<times> Buffer) option" where
  "GetString Windows1252 offset sz null b =
     GetStringEx Windows1252 offset sz null (Some Windows1252) b"

definition GetBuffer :: "int \<Rightarrow> int \<Rightarrow> Buffer \<Rightarrow> (byte list \<times> Buffer) option" where
  "GetBuffer offset sz b =
     (if err b \<noteq> None then Some ([], b)
      else if offset < 0 \<or> add64 offset sz > len (buf b)
        then Some ([], b\<lparr>err := Some ErrOffsetOutOfRange\<rparr>)
      else
        do { retVal \<leftarrow> go_make sz;
             s \<leftarrow> go_slice (buf b) offset (add64 offset sz);
             Some (go_copy retVal s, b) })"

text \<open>
  The typed writers return the value stored before. \<open>binary.LittleEndian.PutUintN\<close> gets
  the slice \<open>b.buf[offset:]\<close> and writes through it into the array of \<open>b.buf\<close>.
\<close>

definition PutUint8 :: "int \<Rightarrow> 8 word \<Rightarrow> Buffer \<Rightarrow> (8 word \<times> Buffer) option" where
  "PutUint8 offset val b =
     (if err b \<noteq> None then Some (0, b)
      else if offset < 0 \<or> offset \<ge> len (buf b)
        then Some (0, b\<lparr>err := Some ErrOffsetOutOfRange\<rparr>)
      else
        do { retVal \<leftarrow> go_index (buf b) offset;
             if retVal \<noteq> val then
               do { a \<leftarrow> go_store (buf b) offset val;
                    Some (retVal, b\<lparr>buf := a, dirty := True\<rparr>) }
             else Some (retVal, b) })"

definition PutInt8 :: "int \<Rightarrow> 8 word \<Rightarrow> Buffer \<Rightarrow> (8 word \<times> Buffer) option" where
  "PutInt8 offset val b = PutUint8 offset val b"

definition PutUint16 :: "int \<Rightarrow> 16 word \<Rightarrow> Buffer \<Rightarrow> (16 word \<times> Buffer) option" where
  "PutUint16 offset val b =
     (if err b \<noteq> None then Some (0, b)
      else if offset < 0 \<or> add64 offset 2 > len (buf b)
        then Some (0, b\<lparr>err := Some ErrOffsetOutOfRange\<rparr>)
      else
        do { s \<leftarrow> go_slice (buf b) offset (len (buf b));
             retVal \<leftarrow> LE_Uint16 s;
             if retVal \<noteq> val then
               do { s' \<leftarrow> LE_PutUint16 s val;
                    Some (retVal, b\<lparr>buf := take (nat offset) (buf b) @ s', dirty := True\<rparr>) }
             else Some (retVal, b) })"

definition PutInt16 :: "int \<Rightarrow> 16 word \<Rightarrow> Buffer \<Rightarrow> (16 word \<times> Buffer) option" where
  "PutInt16 offset val b = PutUint16 offset val b"

definition PutUint32 :: "int \<Rightarrow> 32 word \<Rightarrow> Buffer \<Rightarrow> (32 word \<times> Buffer) option" where
  "PutUint32 offset val b =
     (if err b \<noteq> None then Some (0, b)
      else if offset < 0 \<or> add64 offset 4 > len (buf b)
        then Some (0, b\<lparr>err := Some ErrOffsetOutOfRange\<rparr>)
      else
        do { s \<leftarrow> go_slice (buf b) offset (len (buf b));
             retVal \<leftarrow> LE_Uint32 s;
             if retVal \<noteq> val then
               do { s' \<leftarrow> LE_PutUint32 s val;
                    Some (retVal, b\<lparr>buf := take (nat offset) (buf b) @ s', dirty := True\<rparr>) }
             else Some (retVal, b) })"

definition PutInt32 :: "int \<Rightarrow> 32 word \<Rightarrow> Buffer \<Rightarrow> (32 word \<times> Buffer) option" where
  "PutInt32 offset val b = PutUint32 offset val b"

text \<open>
  The comparison loop of \<open>PutStringEx\<close> and \<open>PutBuffer\<close>:
  \<open>for idx := 0; equal && idx < len(buf); idx++ { equal = buf[idx] == b.buf[offset+idx] }\<close>,
  with \<open>bs\<close> the bytes to write and \<open>a\<close> the content of the buffer.
\<close>

function equal_scan :: "byte list \<Rightarrow> byte list \<Rightarrow> int \<Rightarrow> int \<Rightarrow> bool \<Rightarrow> bool option" where
  "equal_scan bs a offset idx equal =
     (if equal \<and> idx < len bs then
        do { x \<leftarrow> go_index bs idx;
             y \<leftarrow> go_index a (add64 offset idx);
             equal_scan bs a offset (idx + 1) (x = y) }
      else Some equal)"
  by pat_completeness auto
termination
  by (relation "measure (\<lambda>(bs, a, offset, idx, equal). nat (len bs - idx))") auto

text \<open>
  The padding loop of \<open>PutStringEx\<close>:
  \<open>for idx := len(buf); idx < size; idx++ { b.buf[offset+idx] = 0 }\<close>.
\<close>

function zero_fill :: "byte list \<Rightarrow> int \<Rightarrow> int \<Rightarrow> int \<Rightarrow> byte list option" where
  "zero_fill a offset sz idx =
     (if idx < sz then
        do { a' \<leftarrow> go_store a (add64 offset idx) 0;
             zero_fill a' offset sz (idx + 1) }
      else Some a)"
  by pat_completeness auto
termination
  by (relation "measure (\<lambda>(a, offset, sz, idx). nat (sz - idx))") auto

definition PutStringEx ::
  "charmap \<Rightarrow> int \<Rightarrow> int \<Rightarrow> byte list \<Rightarrow> charmap option \<Rightarrow> Buffer \<Rightarrow> Buffer option" where
  "PutStringEx Windows1252 offset sz val cmap b =
     (if err b \<noteq> None then Some b
      else if sz \<le> 0 then Some b
      else if offset < 0 \<or> add64 offset sz > len (buf b)
        then Some (b\<lparr>err := Some ErrOffsetOutOfRange\<rparr>)
      else
        (let (bs, e) = (if cmap \<noteq> None then Utf8ToAnsi Windows1252 val cmap else (val, None));
             b0 = (if cmap \<noteq> None then b\<lparr>err := e\<rparr> else b)
         in if err b0 \<noteq> None then Some b0
            else
              do { equal \<leftarrow> equal_scan bs (buf b0) offset 0 True;
                   if \<not> equal then
                     do { a \<leftarrow> copy_into (buf b0) offset (add64 offset sz) bs;
                          a' \<leftarrow> zero_fill a offset sz (len bs);
                          Some (b0\<lparr>buf := a', dirty := True\<rparr>) }
                   else Some b0 }))"

definition PutString :: "charmap \<Rightarrow> int \<Rightarrow> int \<Rightarrow> byte list \<Rightarrow> Buffer \<Rightarrow> Buffer option" where
  "PutString Windows1252 offset sz val b =
     PutStringEx Windows1252 offset sz val (Some Windows1252) b"

definition PutBuffer :: "int \<Rightarrow> byte list \<Rightarrow> Buffer \<Rightarrow> Buffer option" where
  "PutBuffer offset bs b =
     (if err b \<noteq> None then Some b
      else if offset < 0 \<or> add64 offset (len bs) > len (buf b)
        then Some (b\<lparr>err := Some ErrOffsetOutOfRange\<rparr>)
      else
        do { equal \<leftarrow> equal_scan bs (buf b) offset 0 True;
             if \<not> equal then
               do { a \<leftarrow> copy_into (buf b) offset (add64 offset (len bs)) bs;
                    Some (b\<lparr>buf := a, dirty := True\<rparr>) }
             else Some b })"

text \<open>\<open>ReplaceBuffer\<close>; the argument \<open>None\<close> is the nil slice.\<close>

definition ReplaceBuffer :: "byte list option \<Rightarrow> Buffer \<Rightarrow> Buffer" where
  "ReplaceBuffer bs b =
     (let bs' = (case bs of None \<Rightarrow> [] | Some s \<Rightarrow> s)
      in b\<lparr>buf := bs', dirty := True, err := None\<rparr>)"

text \<open>
  \<open>InsertBytes\<close>. \<open>l\<close> is the length before \<open>append\<close>; the \<open>copy\<close> moves the old tail
  \<open>[offset, l)\<close> of the grown array to \<open>[offset+size, l+size)\<close>.
\<close>

definition InsertBytes :: "int \<Rightarrow> int \<Rightarrow> Buffer \<Rightarrow> Buffer option" where
  "InsertBytes offset sz b =
     (if err b \<noteq> None then Some b
      else if offset < 0 \<or> offset > len (buf b) then Some (b\<lparr>err := Some ErrOffsetOutOfRange\<rparr>)
      else if sz > 0 then
        do { let l = len (buf b);
             z \<leftarrow> go_make sz;
             a \<leftarrow> go_append (buf b) z;
             s \<leftarrow> go_slice a offset l;
             a' \<leftarrow> copy_into a (add64 offset sz) (add64 l sz) s;
             Some (b\<lparr>buf := a', dirty := True\<rparr>) }
      else Some b)"

text \<open>
  \<open>DeleteBytes\<close>. \<open>buf2\<close> is \<open>b.buf[:len(b.buf)-size]\<close> and shares the array of
  \<open>b.buf\<close>. The statement \<open>copy(buf2[:offset], b.buf[:offset])\<close> names the same
  elements of that array twice (\<open>offset\<close> is at most the length of \<open>b.buf\<close>, hence
  within the capacity of \<open>buf2\<close>, so the slice expression does not panic) and changes
  nothing. The second \<open>copy\<close> moves the tail of \<open>b.buf\<close> into \<open>buf2[offset:]\<close>.
\<close>

definition DeleteBytes :: "int \<Rightarrow> int \<Rightarrow> Buffer \<Rightarrow> Buffer option" where
  "DeleteBytes offset sz b =
     (if err b \<noteq> None then Some b
      else if offset < 0 \<or> offset > len (buf b) then Some (b\<lparr>err := Some ErrOffsetOutOfRange\<rparr>)
      else if sz > 0 then
        (if offset = 0 then
           do { s \<leftarrow> go_slice (buf b) sz (len (buf b));
                Some (b\<lparr>buf := s, dirty := True\<rparr>) }
         else
           do { buf2 \<leftarrow> go_slice (buf b) 0 (sub64 (len (buf b)) sz);
                buf2' \<leftarrow>
                  (if add64 offset sz < len buf2 then
                     do { s \<leftarrow> go_slice (buf b) (add64 offset sz) (len (buf b));
                          copy_into buf2 offset (len buf2) s }
                   else Some buf2);
                Some (b\<lparr>buf := buf2', dirty := True\<rparr>) })
      else Some b)"

text \<open>
  Package \<open>compress/zlib\<close> is outside the repository and is taken as a parameter:
  \<^item> \<open>NewWriterLevel l\<close> is the error of \<open>zlib.NewWriterLevel\<close> at level \<open>l\<close>;
  \<^item> \<open>Write_Flush l src\<close> is the outcome of \<open>Write(src)\<close> followed by \<open>Flush()\<close> on a
    writer of level \<open>l\<close>: the first error, or the bytes that have reached the underlying
    \<open>bytes.Buffer\<close> by then (\<open>Write\<close> reports \<open>len(src)\<close> bytes written when it succeeds);
  \<^item> \<open>NewReader_Read src\<close> is the error of \<open>zlib.NewReader\<close> on \<open>src\<close>, or else all the bytes
    that the calls of \<open>Read\<close> deliver until the first one that returns an error, with
    that error (\<open>None\<close> for \<open>io.EOF\<close>). A reader over a finite input returns an error
    after finitely many calls.
\<close>

record zlib =
  NewWriterLevel :: "int \<Rightarrow> error option"
  Write_Flush :: "int \<Rightarrow> byte list \<Rightarrow> error + byte list"
  NewReader_Read :: "byte list \<Rightarrow> error + (byte list \<times> error option)"

text \<open>
  \<open>DecompressInto\<close>. The loop reads into \<open>buffer[totalBytes:]\<close>, which is never empty
  since the target is doubled as soon as it is full; so the target holds the delivered
  bytes from index 0 on, and the final reslice cuts it to exactly these.
\<close>

definition DecompressInto ::
  "zlib \<Rightarrow> int \<Rightarrow> int \<Rightarrow> byte list \<Rightarrow> Buffer \<Rightarrow> (byte list \<times> Buffer) option" where
  "DecompressInto z offset sz buffer b =
     (if err b \<noteq> None then Some (buffer, b)
      else if sz \<le> 0 \<or> offset < 0 \<or> add64 offset sz > len (buf b)
        then Some (buffer, b\<lparr>err := Some ErrOffsetOutOfRange\<rparr>)
      else
        do { src \<leftarrow> go_slice (buf b) offset (add64 offset sz);
             case NewReader_Read z src of
               Inl e \<Rightarrow> Some (buffer, b\<lparr>err := Some e\<rparr>)
             | Inr (out, e) \<Rightarrow>
                 do { _ \<leftarrow> (if buffer = [] then go_make sz else Some buffer);
                      Some (out, if e \<noteq> None then b\<lparr>err := e\<rparr> else b) } })"

definition DecompressReplace :: "zlib \<Rightarrow> int \<Rightarrow> int \<Rightarrow> Buffer \<Rightarrow> (int \<times> Buffer) option" where
  "DecompressReplace z offset sz0 b =
     (if err b \<noteq> None then Some (0, b)
      else
        (let sz = (if sz0 < 0 then 0 else sz0) in
         do { (buffer, b1) \<leftarrow> DecompressInto z offset sz [] b;
              if err b1 \<noteq> None then Some (0, b1)
              else
                do { b2 \<leftarrow>
                       (if len buffer > sz
                          then InsertBytes (add64 offset sz) (sub64 (len buffer) sz) b1
                        else if len buffer < sz
                          then DeleteBytes (add64 offset (len buffer)) (sub64 sz (len buffer)) b1
                        else Some b1);
                     if err b2 \<noteq> None then Some (0, b2)
                     else
                       do { a \<leftarrow> copy_into (buf b2) offset (add64 offset (len buffer)) buffer;
                            Some (len buffer, b2\<lparr>buf := a, dirty := True\<rparr>) } } }))"

text \<open>
  \<open>CompressInto\<close>. \<open>bytes.NewBuffer(buffer)\<close> starts with the content of \<open>buffer\<close>, so
  \<open>bw.Bytes()\<close> is \<open>buffer\<close> followed by the compressed bytes; \<open>bytesWritten\<close> is the
  number of bytes handed to \<open>Write\<close>.
\<close>

definition CompressInto ::
  "zlib \<Rightarrow> int \<Rightarrow> int \<Rightarrow> int \<Rightarrow> byte list \<Rightarrow> Buffer \<Rightarrow> (byte list \<times> Buffer) option" where
  "CompressInto z offset sz level0 buffer b =
     (if err b \<noteq> None then Some (buffer, b)
      else if sz < 0 \<or> offset < 0 \<or> add64 offset sz > len (buf b)
        then Some (buffer, b\<lparr>err := Some ErrOffsetOutOfRange\<rparr>)
      else
        (let level = (if level0 < - 2 then - 2 else if level0 > 9 then 9 else level0) in
         case NewWriterLevel z level of
           Some e \<Rightarrow> Some (buffer, b\<lparr>err := Some e\<rparr>)
         | None \<Rightarrow>
             do { src \<leftarrow> go_slice (buf b) offset (add64 offset sz);
                  case Write_Flush z level src of
                    Inl e \<Rightarrow> Some (buffer, b\<lparr>err := Some e\<rparr>)
                  | Inr out \<Rightarrow>
                      (let bytesWritten = len src; buffer' = buffer @ out in
                       if bytesWritten < len buffer'
                         then do { t \<leftarrow> go_slice buffer' 0 bytesWritten; Some (t, b) }
                       else Some (buffer', b)) }))"

definition CompressReplace :: "zlib \<Rightarrow> int \<Rightarrow> int \<Rightarrow> int \<Rightarrow> Buffer \<Rightarrow> (int \<times> Buffer) option" where
  "CompressReplace z offset sz0 level b =
     (if err b \<noteq> None then Some (0, b)
      else
        (let sz = (if sz0 < 0 then 0 else sz0) in
         do { (buffer, b1) \<leftarrow> CompressInto z offset sz level [] b;
              if err b1 \<noteq> None then Some (0, b1)
              else
                do { b2 \<leftarrow>
                       (if len buffer > sz
                          then InsertBytes (add64 offset sz) (sub64 (len buffer) sz) b1
                        else if len buffer < sz
                          then DeleteBytes (add64 offset (len buffer)) (sub64 sz (len buffer)) b1
                        else Some b1);
                     if err b2 \<noteq> None then Some (0, b2)
                     else
                       do { a \<leftarrow> copy_into (buf b2) offset (add64 offset (len buffer)) buffer;
                            Some (len buffer, b2\<lparr>buf := a, dirty := True\<rparr>) } } }))"

text \<open>
  \<open>GetOffsetArray\<close>. \<open>read_field\<close> is one of its three \<open>switch\<close> statements over a field
  width: the field is read with \<open>GetInt8\<close>, \<open>GetInt16\<close> or \<open>GetInt32\<close> and widened to
  \<open>int\<close>; for every other width the variable keeps its initial value 0. (The first
  \<open>switch\<close> has no case 1; it runs after the width has been checked to be 2 or 4.)
  The result slice is \<open>[]\<close> both for \<open>nil\<close> and for \<open>make([]int, 0)\<close>.
\<close>

definition read_field :: "int \<Rightarrow> int \<Rightarrow> Buffer \<Rightarrow> (int \<times> Buffer) option" where
  "read_field width offset b =
     (if width = 1 then do { (v, b') \<leftarrow> GetInt8 offset b; Some (sint v, b') }
      else if width = 2 then do { (v, b') \<leftarrow> GetInt16 offset b; Some (sint v, b') }
      else if width = 4 then do { (v, b') \<leftarrow> GetInt32 offset b; Some (sint v, b') }
      else Some (0, b))"

text \<open>The loop \<open>for i := idx; i < cnt; i++ { retVal[i - idx] = ofs + i*size }\<close>.\<close>

definition offsets :: "int \<Rightarrow> int \<Rightarrow> int \<Rightarrow> int \<Rightarrow> int list" where
  "offsets ofs sz idx cnt = map (\<lambda>i. add64 ofs (mul64 i sz)) [idx..cnt - 1]"

definition GetOffsetArray :: "int list \<Rightarrow> Buffer \<Rightarrow> (int list \<times> Buffer) option" where
  "GetOffsetArray sevenValues b =
     (if err b \<noteq> None then Some ([], b)
      else if len sevenValues < 7 then Some ([], b\<lparr>err := Some ErrIllegalArguments\<rparr>)
      else if sevenValues ! 0 \<le> 0 \<or> sevenValues ! 2 \<le> 0
        then Some ([], b\<lparr>err := Some ErrIllegalArguments\<rparr>)
      else if sevenValues ! 1 \<noteq> 2 \<and> sevenValues ! 1 \<noteq> 4
        then Some ([], b\<lparr>err := Some ErrIllegalArguments\<rparr>)
      else if sevenValues ! 3 < 1 \<or> sevenValues ! 3 > 4 \<or> sevenValues ! 3 = 3
        then Some ([], b\<lparr>err := Some ErrIllegalArguments\<rparr>)
      else if sevenValues ! 5 < 0 \<or> sevenValues ! 5 > 4 \<or> sevenValues ! 3 = 3
        then Some ([], b\<lparr>err := Some ErrIllegalArguments\<rparr>)
      else if sevenValues ! 6 \<le> 0 then Some ([], b\<lparr>err := Some ErrIllegalArguments\<rparr>)
      else
        do { (ofs, b1) \<leftarrow> read_field (sevenValues ! 1) (sevenValues ! 0) b;
             (cnt, b2) \<leftarrow> read_field (sevenValues ! 3) (sevenValues ! 2) b1;
             (idx, b3) \<leftarrow>
               (if sevenValues ! 4 > 0 then read_field (sevenValues ! 5) (sevenValues ! 4) b2
                else Some (0, b2));
             if ofs > 0 \<and> cnt > 0 \<and> cnt \<ge> idx
               then Some (offsets ofs (sevenValues ! 6) idx cnt, b3)
             else Some ([], b3) })"

definition GetOffsetArray2 :: "int \<Rightarrow> int list \<Rightarrow> Buffer \<Rightarrow> (int list \<times> Buffer) option" where
  "GetOffsetArray2 offset2 sevenValues b =
     (if err b \<noteq> None then Some ([], b)
      else if len sevenValues < 7 then Some ([], b\<lparr>err := Some ErrIllegalArguments\<rparr>)
      else if offset2 \<le> 0 then Some ([], b\<lparr>err := Some ErrIllegalArguments\<rparr>)
      else
        (let ofs = sevenValues ! 0;
             cnt = add64 offset2 (sevenValues ! 2);
             idx = (if sevenValues ! 4 > 0 \<and> sevenValues ! 5 > 0
                    then add64 offset2 (sevenValues ! 4) else 0)
         in GetOffsetArray [ofs, sevenValues ! 1, cnt, sevenValues ! 3, idx, sevenValues ! 5,
                            sevenValues ! 6] b))"

section \<open>Package pvrz\<close>

definition FLAGS_PREMULTIPLIED :: int where "FLAGS_PREMULTIPLIED = 2"
definition TYPE_BC1 :: int where "TYPE_BC1 = 7"
definition TYPE_BC2 :: int where "TYPE_BC2 = 9"
definition TYPE_BC3 :: int where "TYPE_BC3 = 11"
definition SPACE_LRGB :: int where "SPACE_LRGB = 0"
definition SPACE_SRGB :: int where "SPACE_SRGB = 1"
definition CHAN_UBN :: int where "CHAN_UBN = 0"
definition CHAN_SBN :: int where "CHAN_SBN = 1"
definition CHAN_UB :: int where "CHAN_UB = 2"
definition CHAN_SB :: int where "CHAN_SB = 3"
definition QUALITY_LOW :: int where "QUALITY_LOW = 0"
definition QUALITY_DEFAULT :: int where "QUALITY_DEFAULT = 1"
definition QUALITY_HIGH :: int where "QUALITY_HIGH = 2"
definition versionSig :: int where "versionSig = 0x03525650"

text \<open>
  Points and rectangles of package \<open>image\<close>: a rectangle is its \<open>Min\<close> and \<open>Max\<close> point.
  \<open>image.Rect\<close> orders the coordinates; \<open>Dx\<close>, \<open>Dy\<close>, \<open>Size\<close> and \<open>Add\<close> are the methods of
  that package.
\<close>

type_synonym point = "int \<times> int"
type_synonym rectangle = "point \<times> point"

definition ZP :: point where
  "ZP = (0, 0)"

definition Rect :: "int \<Rightarrow> int \<Rightarrow> int \<Rightarrow> int \<Rightarrow> rectangle" where
  "Rect x0 y0 x1 y1 =
     (let (xa, xb) = (if x0 > x1 then (x1, x0) else (x0, x1));
          (ya, yb) = (if y0 > y1 then (y1, y0) else (y0, y1))
      in ((xa, ya), (xb, yb)))"

definition Dx :: "rectangle \<Rightarrow> int" where
  "Dx r = sub64 (fst (snd r)) (fst (fst r))"

definition Dy :: "rectangle \<Rightarrow> int" where
  "Dy r = sub64 (snd (snd r)) (snd (fst r))"

definition Size :: "rectangle \<Rightarrow> point" where
  "Size r = (Dx r, Dy r)"

definition Add :: "point \<Rightarrow> point \<Rightarrow> point" where
  "Add p q = (add64 (fst p) (fst q), add64 (snd p) (snd q))"

text \<open>
  The images of packages \<open>image\<close> and \<open>image/draw\<close> and the block codec
  \<open>github.com/InfinityTools/go-squish\<close> are outside the repository. They are taken as a
  parameter over a type \<open>'img\<close> of (non-nil) images, a type \<open>'col\<close> of colours and a type
  \<open>'met\<close> of metrics:
  \<^item> \<open>Draw dst r src sp\<close> is the content of \<open>dst\<close> after \<open>draw.Draw(dst, r, src, sp, draw.Src)\<close>;
  \<^item> \<open>is_draw_Image\<close> is the outcome of the type assertion \<open>img.(draw.Image)\<close>;
  \<^item> \<open>CompressImage\<close> gives \<open>None\<close> for a nil slice;
  \<^item> the flags and metrics of the codec are its constants.
\<close>

record ('img, 'col, 'met) extern =
  NewRGBA :: "rectangle \<Rightarrow> 'img"
  NewNRGBA :: "rectangle \<Rightarrow> 'img"
  Bounds :: "'img \<Rightarrow> rectangle"
  Draw :: "'img \<Rightarrow> rectangle \<Rightarrow> 'img \<Rightarrow> point \<Rightarrow> 'img"
  Uniform :: "'col \<Rightarrow> 'img"
  is_draw_Image :: "'img \<Rightarrow> bool"
  FLAGS_DXT1 :: int
  FLAGS_DXT3 :: int
  FLAGS_DXT5 :: int
  FLAGS_SOURCE_BGRA :: int
  FLAGS_RANGE_FIT :: int
  FLAGS_CLUSTER_FIT :: int
  FLAGS_ITERATIVE_CLUSTER_FIT :: int
  FLAGS_WEIGHT_BY_ALPHA :: int
  METRIC_PERCEPTUAL :: 'met
  METRIC_UNIFORM :: 'met
  GetStorageRequirements :: "int \<Rightarrow> int \<Rightarrow> int \<Rightarrow> int"
  DecompressImage :: "int \<Rightarrow> int \<Rightarrow> byte list \<Rightarrow> int \<Rightarrow> 'img"
  CompressImage :: "'img \<Rightarrow> int \<Rightarrow> 'met \<Rightarrow> byte list option"

record pvrInfo =
  flags :: int
  pixelType :: int
  colorSpace :: int
  channelType :: int
  height :: int
  width :: int
  depth :: int
  numSurfaces :: int
  numFaces :: int
  numMipMaps :: int
  meta :: "byte list"

record 'img Pvr =
  info :: pvrInfo
  img :: 'img
  err :: "error option"
  quality :: int
  weightByAlpha :: bool
  useMetric :: bool

text \<open>\<open>resizeCanvas\<close>; the result is never nil.\<close>

definition resizeCanvas ::
  "('img, 'col, 'met) extern \<Rightarrow> 'img \<Rightarrow> int \<Rightarrow> int \<Rightarrow> bool \<Rightarrow> 'img option" where
  "resizeCanvas X im w h preserve =
     (let imgNew = NewRGBA X (Rect 0 0 w h)
      in if preserve
           then Some (Draw X imgNew (Bounds X imgNew) im (fst (Bounds X im)))
         else Some imgNew)"

definition CreateNew :: "('img, 'col, 'met) extern \<Rightarrow> int \<Rightarrow> int \<Rightarrow> int \<Rightarrow> 'img Pvr" where
  "CreateNew X width0 height0 pixelType0 =
     (let w = (if width0 < 1 then 1 else width0);
          h = (if height0 < 1 then 1 else height0)
      in \<lparr>info = \<lparr>flags = 0, pixelType = pixelType0, colorSpace = SPACE_LRGB,
                   channelType = CHAN_UBN, height = h, width = w, depth = 1,
                   numSurfaces = 1, numFaces = 1, numMipMaps = 1, meta = []\<rparr>,
          img = NewRGBA X (Rect 0 0 w h),
          err = None,
          quality = QUALITY_DEFAULT,
          weightByAlpha = False,
          useMetric = False\<rparr>)"

definition Pvr_Error :: "'img Pvr \<Rightarrow> error option" where
  "Pvr_Error p = Pvr.err p"

definition Pvr_ClearError :: "'img Pvr \<Rightarrow> 'img Pvr" where
  "Pvr_ClearError p = p\<lparr>Pvr.err := None\<rparr>"

text \<open>\<open>SetImage\<close>; the argument \<open>None\<close> is the nil image.\<close>

definition SetImage :: "('img, 'col, 'met) extern \<Rightarrow> 'img option \<Rightarrow> 'img Pvr \<Rightarrow> 'img Pvr" where
  "SetImage X im0 p =
     (if Pvr.err p \<noteq> None then p
      else case im0 of
        None \<Rightarrow> p\<lparr>Pvr.err := Some ErrIllegalArguments\<rparr>
      | Some im \<Rightarrow>
          (let w = Dx (Bounds X im); h = Dy (Bounds X im);
               imgOut = NewRGBA X (Rect 0 0 w h);
               imgOut' = Draw X imgOut (Bounds X imgOut) im (fst (Bounds X im))
           in p\<lparr>info := (info p)\<lparr>width := w, height := h\<rparr>, img := imgOut'\<rparr>))"

text \<open>\<open>GetImage\<close> and \<open>GetImageRect\<close> return \<open>None\<close> for the nil image.\<close>

definition GetImage :: "('img, 'col, 'met) extern \<Rightarrow> 'img Pvr \<Rightarrow> 'img option" where
  "GetImage X p =
     (if Pvr.err p \<noteq> None then None
      else
        (let imgOut = NewRGBA X (Rect 0 0 (width (info p)) (height (info p)))
         in Some (Draw X imgOut (Bounds X imgOut) (img p) (fst (Bounds X (img p))))))"

definition SetImageRect ::
  "('img, 'col, 'met) extern \<Rightarrow> 'img \<Rightarrow> rectangle \<Rightarrow> point \<Rightarrow> 'img Pvr \<Rightarrow> 'img Pvr" where
  "SetImageRect X im r dp p =
     (if Pvr.err p \<noteq> None then p
      else
        (let dr = (dp, Add dp (Size r))
         in p\<lparr>img := Draw X (img p) dr im (fst r)\<rparr>))"

definition GetImageRect :: "('img, 'col, 'met) extern \<Rightarrow> rectangle \<Rightarrow> 'img Pvr \<Rightarrow> 'img option" where
  "GetImageRect X r p =
     (if Pvr.err p \<noteq> None then None
      else
        (let imgOut = NewRGBA X (ZP, Size r)
         in Some (Draw X imgOut (Bounds X imgOut) (img p) (fst r))))"

definition FillImageRect ::
  "('img, 'col, 'met) extern \<Rightarrow> rectangle \<Rightarrow> 'col \<Rightarrow> 'img Pvr \<Rightarrow> 'img Pvr" where
  "FillImageRect X r col p =
     (if Pvr.err p \<noteq> None then p
      else p\<lparr>img := Draw X (img p) r (Uniform X col) ZP\<rparr>)"

definition GetWidth :: "'img Pvr \<Rightarrow> int" where
  "GetWidth p = (if Pvr.err p \<noteq> None then 0 else width (info p))"

definition GetHeight :: "'img Pvr \<Rightarrow> int" where
  "GetHeight p = (if Pvr.err p \<noteq> None then 0 else height (info p))"

definition SetDimension ::
  "('img, 'col, 'met) extern \<Rightarrow> int \<Rightarrow> int \<Rightarrow> bool \<Rightarrow> 'img Pvr \<Rightarrow> 'img Pvr" where
  "SetDimension X w h preserve p =
     (if Pvr.err p \<noteq> None then p
      else if w = width (info p) \<and> h = height (info p) \<and> preserve then p
      else if w < 1 then p\<lparr>Pvr.err := Some ErrIllegalArguments\<rparr>
      else if h < 1 then p\<lparr>Pvr.err := Some ErrIllegalArguments\<rparr>
      else case resizeCanvas X (img p) w h preserve of
        None \<Rightarrow> p\<lparr>Pvr.err := Some ErrIllegalArguments\<rparr>
      | Some imgNew \<Rightarrow>
          p\<lparr>info := (info p)\<lparr>width := Dx (Bounds X imgNew), height := Dy (Bounds X imgNew)\<rparr>,
            img := imgNew\<rparr>)"

definition pixelTypeSupported :: "int \<Rightarrow> bool" where
  "pixelTypeSupported v \<longleftrightarrow> v = TYPE_BC1 \<or> v = TYPE_BC2 \<or> v = TYPE_BC3"

definition GetPixelType :: "'img Pvr \<Rightarrow> int" where
  "GetPixelType p = pixelType (info p)"

definition SetPixelType :: "int \<Rightarrow> 'img Pvr \<Rightarrow> 'img Pvr" where
  "SetPixelType pixelType0 p =
     (if Pvr.err p \<noteq> None then p
      else if \<not> pixelTypeSupported pixelType0 then p\<lparr>Pvr.err := Some ErrIllegalArguments\<rparr>
      else p\<lparr>info := (info p)\<lparr>pixelType := pixelType0\<rparr>\<rparr>)"

definition GetChannelType :: "'img Pvr \<Rightarrow> int" where
  "GetChannelType p = (if Pvr.err p \<noteq> None then 0 else channelType (info p))"

definition SetChannelType :: "int \<Rightarrow> 'img Pvr \<Rightarrow> 'img Pvr" where
  "SetChannelType channelType0 p =
     (if Pvr.err p \<noteq> None then p
      else if channelType0 < CHAN_UBN \<or> channelType0 > CHAN_SB
        then p\<lparr>Pvr.err := Some ErrIllegalArguments\<rparr>
      else p\<lparr>info := (info p)\<lparr>channelType := channelType0\<rparr>\<rparr>)"

definition GetColorSpace :: "'img Pvr \<Rightarrow> int" where
  "GetColorSpace p = (if Pvr.err p \<noteq> None then 0 else colorSpace (info p))"

definition SetColorSpace :: "int \<Rightarrow> 'img Pvr \<Rightarrow> 'img Pvr" where
  "SetColorSpace colorSpace0 p =
     (if Pvr.err p \<noteq> None then p
      else if colorSpace0 \<noteq> SPACE_LRGB \<and> colorSpace0 \<noteq> SPACE_SRGB
        then p\<lparr>Pvr.err := Some ErrIllegalArguments\<rparr>
      else p\<lparr>info := (info p)\<lparr>colorSpace := colorSpace0\<rparr>\<rparr>)"

definition GetQuality :: "'img Pvr \<Rightarrow> int" where
  "GetQuality p = (if Pvr.err p \<noteq> None then 0 else quality p)"

definition SetQuality :: "int \<Rightarrow> 'img Pvr \<Rightarrow> 'img Pvr" where
  "SetQuality q0 p =
     (if Pvr.err p \<noteq> None then p
      else
        (let q1 = (if q0 < QUALITY_LOW then QUALITY_LOW else q0);
             q2 = (if q1 > QUALITY_HIGH then QUALITY_HIGH else q1)
         in p\<lparr>quality := q2\<rparr>))"

definition GetWeightByAlpha :: "'img Pvr \<Rightarrow> bool" where
  "GetWeightByAlpha p = (if Pvr.err p \<noteq> None then False else weightByAlpha p)"

definition SetWeightByAlpha :: "bool \<Rightarrow> 'img Pvr \<Rightarrow> 'img Pvr" where
  "SetWeightByAlpha set0 p = (if Pvr.err p \<noteq> None then p else p\<lparr>weightByAlpha := set0\<rparr>)"

definition IsPerceptiveMetric :: "'img Pvr \<Rightarrow> bool" where
  "IsPerceptiveMetric p = (if Pvr.err p \<noteq> None then False else useMetric p)"

definition SetPerceptiveMetric :: "bool \<Rightarrow> 'img Pvr \<Rightarrow> 'img Pvr" where
  "SetPerceptiveMetric set0 p = (if Pvr.err p \<noteq> None then p else p\<lparr>useMetric := set0\<rparr>)"

text \<open>\<open>decodeTexture\<close>; \<open>None\<close> is the nil slice as argument and the nil image as result.\<close>

definition decodeTexture ::
  "('img, 'col, 'met) extern \<Rightarrow> byte list option \<Rightarrow> int \<Rightarrow> int \<Rightarrow> int \<Rightarrow> 'img option" where
  "decodeTexture X data w h pixelType0 =
     (if w \<le> 0 \<or> h \<le> 0 then None
      else case data of
        None \<Rightarrow> None
      | Some d \<Rightarrow>
          (case (if pixelType0 = TYPE_BC1 then Some (FLAGS_SOURCE_BGRA X OR FLAGS_DXT1 X)
                 else if pixelType0 = TYPE_BC2 then Some (FLAGS_SOURCE_BGRA X OR FLAGS_DXT3 X)
                 else if pixelType0 = TYPE_BC3 then Some (FLAGS_SOURCE_BGRA X OR FLAGS_DXT5 X)
                 else None) of
             None \<Rightarrow> None
           | Some fl \<Rightarrow>
               (let im = DecompressImage X w h d fl
                in if is_draw_Image X im then Some im
                   else
                     (let imgOut = NewRGBA X (ZP, Size (Bounds X im))
                      in Some (Draw X imgOut (Bounds X imgOut) im (fst (Bounds X im)))))))"

text \<open>
  \<open>encodeTexture\<close>; \<open>None\<close> is the nil slice. The three supported pixel types run the
  same statements but for the flag.
\<close>

definition encodeTexture ::
  "('img, 'col, 'met) extern \<Rightarrow> 'img \<Rightarrow> int \<Rightarrow> int \<Rightarrow> bool \<Rightarrow> bool \<Rightarrow> byte list option" where
  "encodeTexture X im0 pixelType0 quality0 weightByAlpha0 useMetric0 =
     (let w = Dx (Bounds X im0); h = Dy (Bounds X im0) in
      if w < 1 \<or> w AND 3 \<noteq> 0 \<or> h < 1 \<or> h AND 3 \<noteq> 0 then None
      else
        (let q1 = (if quality0 < QUALITY_LOW then QUALITY_LOW else quality0);
             q = (if q1 > QUALITY_HIGH then QUALITY_HIGH else q1);
             newWidth = add64 w 3 AND NOT 3;
             newHeight = add64 h 3 AND NOT 3
         in case (if pixelType0 = TYPE_BC1 then Some (FLAGS_DXT1 X)
                  else if pixelType0 = TYPE_BC2 then Some (FLAGS_DXT3 X)
                  else if pixelType0 = TYPE_BC3 then Some (FLAGS_DXT5 X)
                  else None) of
              None \<Rightarrow> None
            | Some fl0 \<Rightarrow>
               (case (if newWidth \<noteq> w \<or> newHeight \<noteq> h
                        then resizeCanvas X im0 newWidth newHeight True
                      else Some im0) of
                  None \<Rightarrow> None
                | Some im \<Rightarrow>
                    (let fl1 = fl0 OR
                           (if q = QUALITY_LOW then FLAGS_RANGE_FIT X
                            else if q = QUALITY_HIGH then FLAGS_ITERATIVE_CLUSTER_FIT X
                            else FLAGS_CLUSTER_FIT X);
                         fl = (if weightByAlpha0 then fl1 OR FLAGS_WEIGHT_BY_ALPHA X else fl1);
                         metric = (if useMetric0 then METRIC_PERCEPTUAL X else METRIC_UNIFORM X);
                         imgOut = NewNRGBA X (Bounds X im);
                         imgOut' = Draw X imgOut (Bounds X imgOut) im (fst (Bounds X im))
                     in CompressImage X imgOut' fl metric))))"

text \<open>\<open>prepareHeader\<close>. \<open>int32(x)\<close> keeps the low 32 bits.\<close>

definition prepareHeader :: "'img Pvr \<Rightarrow> byte list option" where
  "prepareHeader p =
     do { let buf0 = Create;
          b \<leftarrow> InsertBytes 0 0x34 buf0;
          (_, b) \<leftarrow> PutInt32 0x00 (word_of_int versionSig) b;
          (_, b) \<leftarrow> PutInt32 0x04 (word_of_int (flags (info p))) b;
          (_, b) \<leftarrow> PutInt32 0x08 (word_of_int (pixelType (info p))) b;
          (_, b) \<leftarrow> PutInt32 0x0c 0 b;
          (_, b) \<leftarrow> PutInt32 0x10 (word_of_int (colorSpace (info p))) b;
          (_, b) \<leftarrow> PutInt32 0x14 (word_of_int (channelType (info p))) b;
          (_, b) \<leftarrow> PutInt32 0x18 (word_of_int (height (info p))) b;
          (_, b) \<leftarrow> PutInt32 0x1c (word_of_int (width (info p))) b;
          (_, b) \<leftarrow> PutInt32 0x20 (word_of_int (depth (info p))) b;
          (_, b) \<leftarrow> PutInt32 0x24 (word_of_int (numSurfaces (info p))) b;
          (_, b) \<leftarrow> PutInt32 0x28 (word_of_int (numFaces (info p))) b;
          (_, b) \<leftarrow> PutInt32 0x2c (word_of_int (numMipMaps (info p))) b;
          (_, b) \<leftarrow> PutInt32 0x30 (word_of_int (len (meta (info p)))) b;
          b \<leftarrow> (if len (meta (info p)) > 0
                then do { b' \<leftarrow> InsertBytes 0x34 (len (meta (info p))) b;
                          PutBuffer 0x34 (meta (info p)) b' }
                else Some b);
          Some (Bytes b) }"

text \<open>\<open>exportPvr\<close>: the bytes (\<open>None\<close> for nil) and the \<open>Pvr\<close> with its error state.\<close>

definition exportPvr ::
  "('img, 'col, 'met) extern \<Rightarrow> 'img Pvr \<Rightarrow> (byte list option \<times> 'img Pvr) option" where
  "exportPvr X p =
     do { hdr \<leftarrow> prepareHeader p;
          case encodeTexture X (img p) (pixelType (info p)) (quality p) (weightByAlpha p)
                 (useMetric p) of
            None \<Rightarrow> Some (None, p\<lparr>Pvr.err := Some (ErrMsg ''Unable to encode texture data'')\<rparr>)
          | Some out \<Rightarrow>
              do { b0 \<leftarrow> go_make (add64 (len hdr) (len out));
                   b1 \<leftarrow> copy_into b0 0 (len hdr) hdr;
                   b2 \<leftarrow> copy_into b1 (len hdr) (len b1) out;
                   Some (Some b2, p) } }"

text \<open>
  \<open>Save\<close>, with the writer as for \<open>Buffer\<close>; the result of \<open>Write\<close> is dropped.
\<close>

definition Pvr_Save ::
  "('img, 'col, 'met) extern \<Rightarrow> zlib \<Rightarrow> (byte list \<Rightarrow> 'w \<Rightarrow> error option \<times> 'w) \<Rightarrow> 'w \<Rightarrow> bool
     \<Rightarrow> 'img Pvr \<Rightarrow> ('img Pvr \<times> 'w) option" where
  "Pvr_Save X z Write w compress p =
     (if Pvr.err p \<noteq> None then Some (p, w)
      else
        do { (data, p1) \<leftarrow> exportPvr X p;
             if Pvr.err p1 \<noteq> None then Some (p1, w)
             else
               do { let buf0 = Wrap data;
                    b \<leftarrow>
                      (if compress then
                         do { let pvrLen = BufferLength buf0;
                              (_, b1) \<leftarrow> CompressReplace z 0 pvrLen 9 buf0;
                              b2 \<leftarrow> InsertBytes 0 4 b1;
                              (_, b3) \<leftarrow> PutInt32 0 (word_of_int pvrLen) b2;
                              Some b3 }
                       else Some buf0);
                    Some (p1, snd (Write (Bytes b) w)) } })"

text \<open>
  \<open>importPvr\<close>. \<open>parse_header\<close> is its part from the comment \<open>parsing PVR header\<close> on,
  which both the plain and the compressed input reach; \<open>sig\<close> and \<open>buf0\<close> are the
  variables \<open>sig\<close> and \<open>buf\<close> at that point.
\<close>

definition parse_header ::
  "('img, 'col, 'met) extern \<Rightarrow> int \<Rightarrow> Buffer \<Rightarrow> 'img Pvr \<Rightarrow> 'img Pvr option" where
  "parse_header X sig buf0 p =
     (if sig \<noteq> versionSig
        then Some (p\<lparr>Pvr.err := Some (ErrFmt ''Invalid PVR header signature: %08x'' [sig])\<rparr>)
      else if BufferLength buf0 < 0x34
        then Some (p\<lparr>Pvr.err := Some (ErrFmt ''PVR input buffer too small'' [])\<rparr>)
      else
   do { (v, b) \<leftarrow> GetInt32 0x04 buf0; let flags0 = sint v;
        (v, b) \<leftarrow> GetInt32 0x0c b; let pf = sint v;
   if pf \<noteq> 0
     then Some (p\<lparr>Pvr.err := Some (ErrFmt ''Extended pixel format not supported'' [])\<rparr>) else
   do { (v, b) \<leftarrow> GetInt32 0x08 b; let pixelType0 = sint v;
   if \<not> pixelTypeSupported pixelType0
     then Some (p\<lparr>Pvr.err := Some (ErrFmt ''Unsupported pixel format: %d'' [pixelType0])\<rparr>) else
   do { (v, b) \<leftarrow> GetInt32 0x10 b; let colorSpace0 = sint v;
   if colorSpace0 < 0 \<or> colorSpace0 > 1
     then Some (p\<lparr>Pvr.err := Some (ErrFmt ''Unsupported color space: %d'' [colorSpace0])\<rparr>) else
   do { (v, b) \<leftarrow> GetInt32 0x14 b; let channelType0 = sint v;
   if channelType0 < CHAN_UBN \<or> channelType0 > CHAN_SB
     then Some (p\<lparr>Pvr.err := Some (ErrFmt ''Unsupported channel type: %d'' [channelType0])\<rparr>) else
   do { (v, b) \<leftarrow> GetInt32 0x18 b; let height0 = sint v;
   if height0 < 0 \<or> height0 > 4096
     then Some (p\<lparr>Pvr.err := Some (ErrFmt ''Unsupported texture height: %d'' [height0])\<rparr>) else
   if height0 AND 3 \<noteq> 0
     then Some (p\<lparr>Pvr.err := Some (ErrMsg ''Texture height must be a multiple of 4'')\<rparr>) else
   do { (v, b) \<leftarrow> GetInt32 0x1c b; let width0 = sint v;
   if width0 < 0 \<or> width0 > 4096
     then Some (p\<lparr>Pvr.err := Some (ErrFmt ''Unsupported texture width: %d'' [width0])\<rparr>) else
   if width0 AND 3 \<noteq> 0
     then Some (p\<lparr>Pvr.err := Some (ErrMsg ''Texture width must be a multiple of 4'')\<rparr>) else
   do { (v, b) \<leftarrow> GetInt32 0x20 b; let depth0 = sint v;
   if depth0 \<noteq> 1
     then Some (p\<lparr>Pvr.err := Some (ErrFmt ''Unsupported texture depth: %d'' [depth0])\<rparr>) else
   do { (v, b) \<leftarrow> GetInt32 0x24 b; let numSurfaces0 = sint v;
   if numSurfaces0 \<noteq> 1
     then Some (p\<lparr>Pvr.err :=
            Some (ErrFmt ''Unsupported number of texture surfaces: %d'' [numSurfaces0])\<rparr>) else
   do { (v, b) \<leftarrow> GetInt32 0x28 b; let numFaces0 = sint v;
   if numFaces0 \<noteq> 1
     then Some (p\<lparr>Pvr.err :=
            Some (ErrFmt ''Unsupported number of texture faces: %d'' [numFaces0])\<rparr>) else
   do { (v, b) \<leftarrow> GetInt32 0x2c b; let numMipMaps0 = sint v;
   if numMipMaps0 \<noteq> 1
     then Some (p\<lparr>Pvr.err :=
            Some (ErrFmt ''Unsupported number of texture mip maps: %d'' [numMipMaps0])\<rparr>) else
   do { (v, b) \<leftarrow> GetInt32 0x30 b;
        let metaLen = (if sint v < 0 then 0 else sint v);
   if BufferLength b < add64 0x34 metaLen
     then Some (p\<lparr>Pvr.err := Some (ErrMsg ''Metadata size mismatch'')\<rparr>) else
   do { (meta0, b) \<leftarrow> (if metaLen > 0 then GetBuffer 0x34 metaLen b else Some ([], b));
        let ofsData = add64 0x34 metaLen;
        let dxtFlags = (if pixelType0 = TYPE_BC1 then FLAGS_DXT1 X
                        else if pixelType0 = TYPE_BC2 then FLAGS_DXT3 X
                        else if pixelType0 = TYPE_BC3 then FLAGS_DXT5 X
                        else 0);
        let texSize = GetStorageRequirements X width0 height0 dxtFlags;
   if sub64 (BufferLength b) ofsData < texSize
     then Some (p\<lparr>Pvr.err := Some (ErrFmt ''PVR input buffer too small'' [])\<rparr>) else
   do { data \<leftarrow> go_slice (Bytes b) ofsData (len (Bytes b));
        case decodeTexture X (Some data) width0 height0 pixelType0 of
          None \<Rightarrow> Some (p\<lparr>Pvr.err := Some (ErrMsg ''Error while decoding texture data'')\<rparr>)
        | Some im \<Rightarrow>
            Some (p\<lparr>info := (info p)\<lparr>flags := flags0, pixelType := pixelType0,
                         colorSpace := colorSpace0, channelType := channelType0,
                         height := height0, width := width0, depth := depth0,
                         numSurfaces := numSurfaces0, numFaces := numFaces0,
                         numMipMaps := numMipMaps0, meta := meta0\<rparr>,
                     img := im\<rparr>) } } } } } } } } } } } } })"

definition importPvr ::
  "('img, 'col, 'met) extern \<Rightarrow> zlib \<Rightarrow> byte list option \<Rightarrow> 'img Pvr \<Rightarrow> 'img Pvr option" where
  "importPvr X z data p =
     (if data = None then Some (p\<lparr>Pvr.err := Some (ErrMsg ''No input buffer specified'')\<rparr>)
      else
        (let buf0 = Wrap data in
         if Error buf0 \<noteq> None then Some (p\<lparr>Pvr.err := Error buf0\<rparr>)
         else if BufferLength buf0 < 4
           then Some (p\<lparr>Pvr.err := Some (ErrMsg ''Input buffer too small'')\<rparr>)
         else
           do { (v, b) \<leftarrow> GetInt32 0 buf0;
                let sig = sint v;
                if sig \<noteq> versionSig then
                  (if sig < 0x34 \<or> sig > 2 ^ 25
                     then Some (p\<lparr>Pvr.err := Some
                            (ErrFmt ''PVR target size outside of accepted limits: %d'' [sig])\<rparr>)
                   else
                     do { (_, b) \<leftarrow> DecompressReplace z 4 (sub64 (BufferLength b) 4) b;
                          if Error b \<noteq> None then Some (p\<lparr>Pvr.err := Error b\<rparr>)
                          else
                            do { b \<leftarrow> DeleteBytes 0 4 b;
                                 if BufferLength b < sig
                                   then Some (p\<lparr>Pvr.err := Some
                                          (ErrFmt ''PVRZ data size mismatch: %d != %d''
                                             [BufferLength b, sig])\<rparr>)
                                 else
                                   do { b \<leftarrow> (if BufferLength b > sig
                                               then DeleteBytes sig (sub64 (BufferLength b) sig) b
                                             else Some b);
                                        (v, b) \<leftarrow> GetInt32 0 b;
                                        parse_header X (sint v) b p } } })
                else parse_header X sig b p }))"

text \<open>
  \<open>Load\<close>. The reader is taken as the bytes it delivers until its first error, with that
  error (\<open>None\<close> for \<open>io.EOF\<close>); the loop gathers them in \<open>buf\<close> as the loop of
  \<open>DecompressInto\<close> does.
\<close>

definition Pvr_Load ::
  "('img, 'col, 'met) extern \<Rightarrow> zlib \<Rightarrow> byte list \<times> error option \<Rightarrow> 'img Pvr option" where
  "Pvr_Load X z r =
     (let p = CreateNew X 0 0 TYPE_BC1 in
      if snd r \<noteq> None then Some (p\<lparr>Pvr.err := snd r\<rparr>)
      else importPvr X z (Some (fst r)) p)"

section \<open>Auxiliary notions for the proofs\<close>

text \<open>
  The content of a buffer \<open>xs\<close> after \<open>InsertBytes\<close> of \<open>n > 0\<close> bytes at index \<open>k\<close>: the
  first \<open>k + n\<close> bytes of the zero-extended array are kept as they are, the old tail
  follows.
\<close>

definition inserted :: "byte list \<Rightarrow> nat \<Rightarrow> nat \<Rightarrow> byte list" where
  "inserted xs k n = take (k + n) (xs @ replicate n 0) @ drop k xs"

text \<open>
  Instances of the external parameters for the closed examples: images, colours and
  metrics are the one-point type; the stream codec accepts the levels from \<open>-2\<close> to 9,
  writes the level as one byte followed by its input, and reads its input back as it is.
\<close>

definition example_extern :: "(unit, unit, unit) extern" where
  "example_extern =
     \<lparr>NewRGBA = (\<lambda>r. ()), NewNRGBA = (\<lambda>r. ()), Bounds = (\<lambda>i. ((0, 0), (0, 0))),
       Draw = (\<lambda>d r s sp. ()), Uniform = (\<lambda>c :: unit. ()), is_draw_Image = (\<lambda>i. True),
       FLAGS_DXT1 = 1, FLAGS_DXT3 = 2, FLAGS_DXT5 = 4, FLAGS_SOURCE_BGRA = 512,
       FLAGS_RANGE_FIT = 16, FLAGS_CLUSTER_FIT = 8, FLAGS_ITERATIVE_CLUSTER_FIT = 256,
       FLAGS_WEIGHT_BY_ALPHA = 128, METRIC_PERCEPTUAL = (), METRIC_UNIFORM = (),
       GetStorageRequirements = (\<lambda>w h f. 0), DecompressImage = (\<lambda>w h d f. ()),
       CompressImage = (\<lambda>i f m. Some [])\<rparr>"

definition example_zlib :: zlib where
  "example_zlib =
     \<lparr>NewWriterLevel =
        (\<lambda>l. if l < - 2 \<or> 9 < l then Some (ErrMsg ''zlib: invalid compression level'')
             else None),
      Write_Flush = (\<lambda>l s. Inr (word_of_int l # s)),
      NewReader_Read = (\<lambda>s. Inr (s, None))\<rparr>"

definition example_Pvr :: "unit Pvr" where
  "example_Pvr =
     \<lparr>info = \<lparr>flags = 0, pixelType = 7, colorSpace = 0, channelType = 0, height = 4,
         width = 4, depth = 1, numSurfaces = 1, numFaces = 1, numMipMaps = 1, meta = []\<rparr>,
       img = (), err = None, quality = 1, weightByAlpha = False, useMetric = False\<rparr>"

text \<open>
  What \<open>importPvr\<close> may do to the container: a result \<open>r\<close> of a computation started on \<open>p\<close>
  either is a panic, or is \<open>p\<close> with nothing but the error set, or has the error state
  of \<open>p\<close>.
\<close>

definition keeps :: "'img Pvr \<Rightarrow> 'img Pvr option \<Rightarrow> bool" where
  "keeps p r \<longleftrightarrow>
     (case r of None \<Rightarrow> True
      | Some p' \<Rightarrow> (\<exists>e. p' = p\<lparr>Pvr.err := Some e\<rparr>) \<or> Pvr.err p' = Pvr.err p)"

section \<open>Arithmetic and slices\<close>

lemma wrap64_id: "is_int x \<Longrightarrow> wrap64 x = x"
  by (simp add: wrap64_def is_int_def)

lemma add64_id: "is_int (a + b) \<Longrightarrow> add64 a b = a + b"
  by (simp add: add64_def wrap64_id)

lemma sub64_id: "is_int (a - b) \<Longrightarrow> sub64 a b = a - b"
  by (simp add: sub64_def wrap64_id)

lemma copy_same_length: "length dst = length src \<Longrightarrow> go_copy dst src = src"
  by (simp add: go_copy_def)

lemma copy_into_exact:
  assumes "0 \<le> lo" "lo \<le> hi" "hi \<le> len s" "len src = hi - lo"
  shows "copy_into s lo hi src = Some (take (nat lo) s @ src @ drop (nat hi) s)"
proof -
  have "length (take (nat (hi - lo)) (drop (nat lo) s)) = length src"
    using assms by (simp add: len_def)
  then show ?thesis
    using assms by (simp add: copy_into_def go_slice_def copy_same_length)
qed

lemma length_go_copy: "length (go_copy dst src) = length dst"
  by (simp add: go_copy_def min_def)

lemma copy_into_returns:
  assumes "0 \<le> lo" "lo \<le> hi" "hi \<le> len s"
  shows "\<exists>s'. copy_into s lo hi src = Some s' \<and> len s' = len s"
proof -
  define k h where "k = nat lo" and "h = nat hi"
  have kh: "k \<le> h" "h \<le> length s" and lo: "lo = int k" and hi: "hi = int h"
    using assms by (simp_all add: k_def h_def len_def)
  have d: "go_slice s (int k) (int h) = Some (take (h - k) (drop k s))"
    using kh by (simp add: go_slice_def len_def nat_diff_distrib)
  have "length (take k s @ go_copy (take (h - k) (drop k s)) src @ drop h s) = length s"
    using kh by (simp add: length_go_copy)
  then show ?thesis
    unfolding lo hi by (simp add: copy_into_def d len_def)
qed

lemma length_inserted: "k \<le> length xs \<Longrightarrow> length (inserted xs k n) = length xs + n"
  by (auto simp: inserted_def min_def)

lemma drop_inserted: "k \<le> length xs \<Longrightarrow> drop (k + n) (inserted xs k n) = drop k xs"
  by (auto simp: inserted_def min_def)

lemma take_inserted: "k \<le> length xs \<Longrightarrow> take k (inserted xs k n) = take k xs"
  by (auto simp: inserted_def min_def)

lemma take_inserted_short:
  "k \<le> length xs \<Longrightarrow> length xs \<le> k + n \<Longrightarrow> take (length xs) (inserted xs k n) = xs"
  by (auto simp: inserted_def min_def)

section \<open>Inserting and deleting bytes\<close>

lemma InsertBytes_content:
  assumes "Buffer.err b = None" "0 \<le> offset" "offset \<le> len (buf b)" "0 < sz"
    "is_int (len (buf b) + sz)"
  shows "InsertBytes offset sz b =
     Some (b\<lparr>buf := inserted (buf b) (nat offset) (nat sz), dirty := True\<rparr>)"
proof -
  let ?l = "len (buf b)"
  let ?a = "buf b @ replicate (nat sz) 0"
  have a1: "add64 offset sz = offset + sz"
    using assms by (intro add64_id) (simp add: is_int_def len_def)
  have a2: "add64 ?l sz = ?l + sz" using assms by (intro add64_id)
  have m: "go_make sz = Some (replicate (nat sz) 0)" using assms by (simp add: go_make_def)
  have ap: "go_append (buf b) (replicate (nat sz) 0) = Some ?a"
    using assms by (simp add: go_append_def len_def)
  have s: "go_slice ?a offset ?l = Some (drop (nat offset) (buf b))"
    using assms by (simp add: go_slice_def len_def nat_diff_distrib)
  have c: "copy_into ?a (offset + sz) (?l + sz) (drop (nat offset) (buf b))
        = Some (take (nat offset + nat sz) ?a @ drop (nat offset) (buf b))"
    using assms by (subst copy_into_exact) (simp_all add: len_def nat_add_distrib)
  show ?thesis
    using assms by (simp add: InsertBytes_def Let_def m ap s a1 a2 c inserted_def)
qed

lemma DeleteBytes_inserted:
  assumes "Buffer.err b = None" "0 \<le> offset" "offset \<le> len (buf b)" "0 < sz"
    "is_int (len (buf b) + sz)"
  shows "DeleteBytes offset sz (b\<lparr>buf := inserted (buf b) (nat offset) (nat sz), dirty := True\<rparr>)
     = Some (b\<lparr>dirty := True\<rparr>)"
proof -
  define k n xs where "k = nat offset" and "n = nat sz" and "xs = buf b"
  define a where "a = inserted xs k n"
  define b1 where "b1 = b\<lparr>buf := a, dirty := True\<rparr>"
  have k: "k \<le> length xs" and n: "0 < n" and ok: "offset = int k" and sn: "sz = int n"
    using assms by (simp_all add: k_def n_def xs_def len_def)
  have la: "length a = length xs + n" using k by (simp add: a_def length_inserted)
  have lena: "len a = int (length xs) + int n" using la by (simp add: len_def)
  have e: "Buffer.err b1 = None" and ba: "buf b1 = a" using assms by (simp_all add: b1_def)
  have a1: "add64 (int k) (int n) = int k + int n"
    using assms k unfolding ok sn by (subst add64_id) (simp_all add: is_int_def len_def xs_def)
  have s1: "sub64 (int (length xs) + int n) (int n) = int (length xs)"
    using assms unfolding sn by (subst sub64_id) (simp_all add: is_int_def len_def xs_def)
  have lt: "len (take (length xs) a) = int (length xs)" using la by (simp add: len_def)
  have lx: "len xs = int (length xs)" by (simp add: len_def)
  have D: "DeleteBytes offset sz b1 = Some (b1\<lparr>buf := xs, dirty := True\<rparr>)"
  proof (cases "k = 0")
    case True
    have "go_slice a (int n) (int (length xs) + int n) = Some xs"
      using drop_inserted [of 0 xs n] True la by (simp add: go_slice_def len_def a_def)
    then show ?thesis
      using True n by (simp add: DeleteBytes_def ok sn e ba lena)
  next
    case False
    have b2: "go_slice a 0 (int (length xs)) = Some (take (length xs) a)"
      using la by (simp add: go_slice_def len_def)
    show ?thesis
    proof (cases "k + n < length xs")
      case True
      have t: "go_slice a (int k + int n) (int (length xs) + int n) = Some (drop k xs)"
        using k la drop_inserted [of k xs n] by (simp add: go_slice_def len_def a_def nat_int_add)
      have "copy_into (take (length xs) a) (int k) (int (length xs)) (drop k xs)
          = Some (take k (take (length xs) a) @ drop k xs @ drop (length xs) (take (length xs) a))"
        using k la by (subst copy_into_exact) (simp_all add: len_def)
      also have "take k (take (length xs) a) = take k xs"
        using k take_inserted [of k xs n] by (simp add: a_def min_def)
      finally have c: "copy_into (take (length xs) a) (int k) (int (length xs)) (drop k xs) = Some xs"
        by simp
      have lt': "int k + int n < int (length xs)" using True by simp
      show ?thesis
        using False n k lt'
        by (simp add: DeleteBytes_def ok sn e ba lena a1 s1 b2 lt t c)
    next
      case F2: False
      have tk: "take (length xs) a = xs"
        using k F2 take_inserted_short [of k xs n] by (simp add: a_def)
      have lt': "\<not> int k + int n < int (length xs)" using F2 by simp
      show ?thesis
        using False n k lt'
        by (simp add: DeleteBytes_def ok sn e ba lena a1 s1 b2 tk lx)
    qed
  qed
  show ?thesis
    using D by (simp add: b1_def a_def k_def n_def xs_def)
qed

lemma DeleteBytes_returns:
  assumes "Buffer.err b = None" "0 \<le> offset" "offset \<le> len (buf b)" "0 < sz"
    "sz \<le> len (buf b)" "len (buf b) < 2 ^ 62"
  shows "\<exists>b'. DeleteBytes offset sz b = Some b' \<and> Buffer.err b' = None
           \<and> len (buf b') = len (buf b) - sz"
proof -
  let ?l = "len (buf b)"
  have l0: "0 \<le> ?l" by (simp add: len_def)
  have s1: "sub64 ?l sz = ?l - sz"
    using assms l0 by (intro sub64_id) (simp add: is_int_def)
  have a1: "add64 offset sz = offset + sz"
    using assms l0 by (intro add64_id) (simp add: is_int_def)
  show ?thesis
  proof (cases "offset = 0")
    case True
    then show ?thesis
      using assms by (simp add: DeleteBytes_def go_slice_def len_def)
  next
    case False
    have b2: "go_slice (buf b) 0 (?l - sz) = Some (take (nat (?l - sz)) (buf b))"
      using assms by (simp add: go_slice_def)
    have lb2: "len (take (nat (?l - sz)) (buf b)) = ?l - sz"
      using assms by (simp add: len_def)
    show ?thesis
    proof (cases "offset + sz < ?l - sz")
      case True
      have "\<exists>s. go_slice (buf b) (offset + sz) ?l = Some s"
        using assms True by (simp add: go_slice_def)
      then obtain s where s: "go_slice (buf b) (offset + sz) ?l = Some s" ..
      obtain s' where s': "copy_into (take (nat (?l - sz)) (buf b)) offset (?l - sz) s = Some s'"
        "len s' = ?l - sz"
        using copy_into_returns [of offset "?l - sz" "take (nat (?l - sz)) (buf b)" s]
          assms True lb2 by auto
      show ?thesis
        using assms False True
        by (simp add: DeleteBytes_def s1 a1 b2 lb2 s s')
    next
      case F2: False
      show ?thesis
        using assms False F2
        by (simp add: DeleteBytes_def s1 a1 b2 lb2)
    qed
  qed
qed

text \<open>
  Claim C1. On a buffer without error, for an offset \<open>0 \<le> offset \<le> len\<close> and a size
  \<open>sz \<ge> 0\<close> for which the grown length is still an \<open>int\<close>, \<open>InsertBytes offset sz\<close>
  followed by \<open>DeleteBytes offset sz\<close> returns normally, leaves the buffer without error
  and restores the byte content and the length.
\<close>

theorem InsertBytes_DeleteBytes_restores:
  assumes "Buffer.err b = None" "0 \<le> offset" "offset \<le> len (buf b)" "0 \<le> sz"
    "is_int (len (buf b) + sz)"
  shows "\<exists>b1 b2. InsertBytes offset sz b = Some b1 \<and> DeleteBytes offset sz b1 = Some b2
           \<and> Buffer.err b2 = None \<and> buf b2 = buf b \<and> Bytes b2 = Bytes b
           \<and> BufferLength b2 = BufferLength b"
proof (cases "sz = 0")
  case True
  then show ?thesis
    using assms by (simp add: InsertBytes_def DeleteBytes_def)
next
  case False
  then have pos: "0 < sz" using assms by simp
  show ?thesis
    using InsertBytes_content [OF assms(1-3) pos assms(5)]
      DeleteBytes_inserted [OF assms(1-3) pos assms(5)] assms(1)
    by (simp add: Bytes_def BufferLength_def)
qed

theorem InsertBytes_DeleteBytes_restores_witness:
  "Buffer.err \<lparr>buf = [1, 2, 3], dirty = False, err = None\<rparr> = None
   \<and> (0::int) \<le> 1 \<and> 1 \<le> len (buf \<lparr>buf = [1, 2, 3], dirty = False, err = None\<rparr>)
   \<and> (0::int) \<le> 2
   \<and> is_int (len (buf \<lparr>buf = [1, 2, 3], dirty = False, err = None\<rparr>) + 2)
   \<and> (\<exists>b1 b2. InsertBytes 1 2 \<lparr>buf = [1, 2, 3], dirty = False, err = None\<rparr> = Some b1
          \<and> DeleteBytes 1 2 b1 = Some b2
          \<and> Buffer.err b2 = None \<and> buf b2 = [1, 2, 3] \<and> Bytes b2 = [1, 2, 3]
          \<and> BufferLength b2 = 3)"
  using InsertBytes_DeleteBytes_restores
    [of "\<lparr>buf = [1, 2, 3], dirty = False, err = None\<rparr>" 1 2]
  by (simp add: len_def is_int_def BufferLength_def Bytes_def)

section \<open>Creation\<close>

text \<open>
  Claim C7. The claim that a buffer made by \<open>Create()\<close>, or \<open>Wrap(nil)\<close>, is empty does not
  hold of the code: \<open>Wrap\<close> replaces the nil slice by \<open>make([]byte, 256)\<close>, so the new
  buffer has length 256 and \<open>Bytes()\<close> returns 256 zero bytes.
\<close>

theorem Create_not_empty:
  "Create = Wrap None \<and> BufferLength Create = 256 \<and> Bytes Create = replicate 256 0
   \<and> Bytes Create \<noteq> []"
  by (simp add: BufferLength_def Bytes_def Create_def Wrap_def len_def)

section \<open>Offset arrays\<close>

lemma sint8_range: "- (2 ^ 31) \<le> sint (v :: 8 word) \<and> sint v < 2 ^ 31"
  using sint_ge [of v] sint_lt [of v] by simp

lemma sint16_range: "- (2 ^ 31) \<le> sint (v :: 16 word) \<and> sint v < 2 ^ 31"
  using sint_ge [of v] sint_lt [of v] by simp

lemma sint32_range: "- (2 ^ 31) \<le> sint (v :: 32 word) \<and> sint v < 2 ^ 31"
  using sint_ge [of v] sint_lt [of v] by simp

lemma read_field_range:
  assumes "read_field w off b = Some (v, b')"
  shows "- (2 ^ 31) \<le> v \<and> v < 2 ^ 31"
  using assms sint8_range sint16_range sint32_range
  by (auto simp: read_field_def bind_eq_Some_conv split: if_splits)

lemma offsets_2_5: 
  assumes "- (2 ^ 31) \<le> ofs" "ofs < 2 ^ 31"
  shows "offsets ofs 16 2 5 = [ofs + 32, ofs + 48, ofs + 64]"
proof -
  have "[2..5 - 1] = [2, 3, 4::int]" by (simp add: upto.simps)
  moreover have "add64 ofs (mul64 2 16) = ofs + 32" "add64 ofs (mul64 3 16) = ofs + 48"
     "add64 ofs (mul64 4 16) = ofs + 64"
    using assms by (simp_all add: add64_def mul64_def wrap64_def)
  ultimately show ?thesis by (simp add: offsets_def)
qed

text \<open>
  Claim C9. On a buffer without error, for a well-formed argument tuple (offset field of
  width 2 or 4, count and index field of width 1, 2 or 4, all three at positive
  positions, so that the index field is in use) whose offset field reads \<open>base > 0\<close>,
  whose count field reads 5 and whose index field reads 2, and with \<open>structSize\<close> 16,
  \<open>GetOffsetArray\<close> returns exactly \<open>[base + 32, base + 48, base + 64]\<close> and leaves the
  buffer as it is.
\<close>

theorem GetOffsetArray_example:
  assumes "Buffer.err b = None"
    and "ow = 2 \<or> ow = 4" and "cw = 1 \<or> cw = 2 \<or> cw = 4" and "iw = 1 \<or> iw = 2 \<or> iw = 4"
    and "0 < oo" and "0 < co" and "0 < io"
    and "read_field ow oo b = Some (base, b)" and "0 < base"
    and "read_field cw co b = Some (5, b)"
    and "read_field iw io b = Some (2, b)"
  shows "GetOffsetArray [oo, ow, co, cw, io, iw, 16] b = Some ([base + 32, base + 48, base + 64], b)"
proof -
  have r: "- (2 ^ 31) \<le> base" "base < 2 ^ 31"
    using read_field_range [OF assms(8)] by simp_all
  show ?thesis
    using assms offsets_2_5 [OF r]
    by (auto simp: GetOffsetArray_def len_def)
qed

theorem GetOffsetArray_example_witness:
  "Buffer.err \<lparr>buf = [0, 10, 0, 5, 2], dirty = False, err = None\<rparr> = None
   \<and> ((2::int) = 2 \<or> (2::int) = 4) \<and> ((1::int) = 1 \<or> (1::int) = 2 \<or> (1::int) = 4)
   \<and> (0::int) < 1 \<and> (0::int) < 3 \<and> (0::int) < 4
   \<and> read_field 2 1 \<lparr>buf = [0, 10, 0, 5, 2], dirty = False, err = None\<rparr>
         = Some (10, \<lparr>buf = [0, 10, 0, 5, 2], dirty = False, err = None\<rparr>)
   \<and> (0::int) < 10
   \<and> read_field 1 3 \<lparr>buf = [0, 10, 0, 5, 2], dirty = False, err = None\<rparr>
         = Some (5, \<lparr>buf = [0, 10, 0, 5, 2], dirty = False, err = None\<rparr>)
   \<and> read_field 1 4 \<lparr>buf = [0, 10, 0, 5, 2], dirty = False, err = None\<rparr>
         = Some (2, \<lparr>buf = [0, 10, 0, 5, 2], dirty = False, err = None\<rparr>)
   \<and> GetOffsetArray [1, 2, 3, 1, 4, 1, 16] \<lparr>buf = [0, 10, 0, 5, 2], dirty = False, err = None\<rparr>
         = Some ([42, 58, 74], \<lparr>buf = [0, 10, 0, 5, 2], dirty = False, err = None\<rparr>)"
  using GetOffsetArray_example
    [of "\<lparr>buf = [0, 10, 0, 5, 2], dirty = False, err = None\<rparr>" 2 1 1 1 3 4 10]
  by (simp add: read_field_def GetInt16_def GetUint16_def GetInt8_def GetUint8_def len_def
      add64_def wrap64_def go_slice_def LE_Uint16_def go_index_def)

text \<open>
  Claim C8. The claim that an index field width outside the supported widths is rejected
  does not hold of the code: the check of \<open>sevenValues[5]\<close> repeats the test
  \<open>sevenValues[3] == 3\<close> of the line before it instead of testing \<open>sevenValues[5] == 3\<close>.
  With index width 3 and all other arguments well-formed no error is set, the index is
  taken to be 0, and the offsets of all \<open>cnt\<close> structures are returned. The same width
  3 for the count field is rejected.
\<close>

theorem GetOffsetArray_index_width_3:
  "GetOffsetArray [1, 2, 3, 2, 5, 3, 4]
       \<lparr>buf = [0, 8, 0, 2, 0, 0, 0, 0], dirty = False, err = None\<rparr>
     = Some ([8, 12], \<lparr>buf = [0, 8, 0, 2, 0, 0, 0, 0], dirty = False, err = None\<rparr>)
   \<and> GetOffsetArray [1, 2, 3, 3, 5, 2, 4]
       \<lparr>buf = [0, 8, 0, 2, 0, 0, 0, 0], dirty = False, err = None\<rparr>
     = Some ([], \<lparr>buf = [0, 8, 0, 2, 0, 0, 0, 0], dirty = False,
                  err = Some ErrIllegalArguments\<rparr>)"
  by (simp add: GetOffsetArray_def read_field_def GetInt16_def GetUint16_def len_def add64_def
      wrap64_def go_slice_def LE_Uint16_def go_index_def offsets_def mul64_def upto.simps)

section \<open>Writing strings\<close>

text \<open>
  Claim C6. The claim that a string shorter than its field is always followed by zero
  padding does not hold of the code: \<open>PutStringEx\<close> compares only the \<open>len(buf)\<close> encoded
  bytes with the bytes in place and writes nothing, padding included, when they agree.
  Writing \<open>AB\<close> (and likewise the empty string) into the 4-byte field \<open>ABCD\<close> leaves
  \<open>ABCD\<close>, not \<open>AB\<close> followed by two zero bytes; writing \<open>XB\<close> into the same field does
  pad.
\<close>

theorem PutStringEx_no_padding:
  "PutStringEx W 0 4 [0x41, 0x42] None
       \<lparr>buf = [0x41, 0x42, 0x43, 0x44], dirty = False, err = None\<rparr>
     = Some \<lparr>buf = [0x41, 0x42, 0x43, 0x44], dirty = False, err = None\<rparr>
   \<and> PutStringEx W 0 4 [] None
       \<lparr>buf = [0x41, 0x42, 0x43, 0x44], dirty = False, err = None\<rparr>
     = Some \<lparr>buf = [0x41, 0x42, 0x43, 0x44], dirty = False, err = None\<rparr>
   \<and> PutStringEx W 0 4 [0x58, 0x42] None
       \<lparr>buf = [0x41, 0x42, 0x43, 0x44], dirty = False, err = None\<rparr>
     = Some \<lparr>buf = [0x58, 0x42, 0, 0], dirty = True, err = None\<rparr>"
  by (simp add: PutStringEx_def len_def add64_def wrap64_def go_index_def copy_into_def
      go_slice_def go_copy_def go_store_def)

section \<open>Compression level\<close>

lemma CompressInto_low: "level < - 2 \<Longrightarrow>
    CompressInto z offset sz level buffer b = CompressInto z offset sz (- 2) buffer b"
  by (simp add: CompressInto_def)

lemma CompressInto_high: "9 < level \<Longrightarrow>
    CompressInto z offset sz level buffer b = CompressInto z offset sz 9 buffer b"
  by (simp add: CompressInto_def)

lemma CompressInto_levels_used:
  assumes "\<And>l. - 2 \<le> l \<Longrightarrow> l \<le> 9 \<Longrightarrow> NewWriterLevel z l = NewWriterLevel z' l"
    and "\<And>l. - 2 \<le> l \<Longrightarrow> l \<le> 9 \<Longrightarrow> Write_Flush z l = Write_Flush z' l"
  shows "CompressInto z offset sz level buffer b = CompressInto z' offset sz level buffer b"
proof -
  define c where "c = (if level < - 2 then - 2 else if level > 9 then 9 else level)"
  have "- 2 \<le> c" "c \<le> 9" by (simp_all add: c_def)
  then have N: "NewWriterLevel z c = NewWriterLevel z' c"
    and W: "Write_Flush z c = Write_Flush z' c"
    using assms by simp_all
  show ?thesis
    unfolding CompressInto_def Let_def c_def [symmetric] N W by (rule refl)
qed

lemma CompressInto_accepts:
  assumes lib: "\<And>l. - 2 \<le> l \<Longrightarrow> l \<le> 9 \<Longrightarrow> NewWriterLevel z l = None"
      "\<And>l s. - 2 \<le> l \<Longrightarrow> l \<le> 9 \<Longrightarrow> \<exists>out. Write_Flush z l s = Inr out"
    and b: "Buffer.err b = None" "0 \<le> offset" "0 \<le> sz" "offset + sz \<le> len (buf b)"
      "len (buf b) < 2 ^ 62"
  shows "\<exists>r. CompressInto z offset sz level target b = Some (r, b) \<and> len r \<le> sz"
proof -
  define c where "c = (if level < - 2 then - 2 else if level > 9 then 9 else level)"
  have c: "- 2 \<le> c" "c \<le> 9" by (simp_all add: c_def)
  have a1: "add64 offset sz = offset + sz"
    using b by (intro add64_id) (simp add: is_int_def)
  define src where "src = take (nat sz) (drop (nat offset) (buf b))"
  have s: "go_slice (buf b) offset (offset + sz) = Some src"
    using b by (simp add: go_slice_def src_def)
  have ls: "len src = sz"
    using b by (simp add: src_def len_def)
  obtain out where out: "Write_Flush z c src = Inr out"
    using lib(2) [OF c] by blast
  have n: "NewWriterLevel z c = None" using lib(1) [OF c] .
  have C: "CompressInto z offset sz level target b =
      (if sz < len (target @ out)
         then go_slice (target @ out) 0 sz \<bind> (\<lambda>t. Some (t, b))
       else Some (target @ out, b))"
    using b unfolding CompressInto_def Let_def c_def [symmetric]
    by (simp add: a1 s n out ls)
  show ?thesis
  proof (cases "sz < len (target @ out)")
    case True
    define t where "t = take (nat sz) (target @ out)"
    have "go_slice (target @ out) 0 sz = Some t"
      using b True by (simp add: go_slice_def t_def)
    moreover have "len t \<le> sz"
      using b by (simp add: len_def t_def)
    ultimately show ?thesis using True C by simp
  next
    case False
    then show ?thesis using C by simp
  qed
qed

lemma CompressReplace_accepts:
  assumes lib: "\<And>l. - 2 \<le> l \<Longrightarrow> l \<le> 9 \<Longrightarrow> NewWriterLevel z l = None"
      "\<And>l s. - 2 \<le> l \<Longrightarrow> l \<le> 9 \<Longrightarrow> \<exists>out. Write_Flush z l s = Inr out"
    and b: "Buffer.err b = None" "0 \<le> offset" "0 \<le> sz" "offset + sz \<le> len (buf b)"
      "len (buf b) < 2 ^ 62"
  shows "\<exists>n b'. CompressReplace z offset sz level b = Some (n, b') \<and> Buffer.err b' = None"
proof -
  obtain r where r: "CompressInto z offset sz level [] b = Some (r, b)" "len r \<le> sz"
    using CompressInto_accepts [OF lib b, of level "[]"] by auto
  have r0: "0 \<le> len r" by (simp add: len_def)
  have a1: "add64 offset (len r) = offset + len r"
    using b r r0 by (intro add64_id) (simp add: is_int_def)
  have s1: "sub64 sz (len r) = sz - len r"
    using b r r0 by (intro sub64_id) (simp add: is_int_def)
  have "\<exists>b2. (if len r > sz then InsertBytes (add64 offset sz) (sub64 (len r) sz) b
              else if len r < sz then DeleteBytes (add64 offset (len r)) (sub64 sz (len r)) b
              else Some b) = Some b2 \<and> Buffer.err b2 = None \<and> offset + len r \<le> len (buf b2)"
  proof (cases "len r < sz")
    case True
    obtain b2 where "DeleteBytes (offset + len r) (sz - len r) b = Some b2"
      "Buffer.err b2 = None" "len (buf b2) = len (buf b) - (sz - len r)"
      using DeleteBytes_returns [of b "offset + len r" "sz - len r"] b r r0 True by auto
    then show ?thesis using True b by (simp add: a1 s1)
  next
    case False
    then show ?thesis using r b by simp
  qed
  then obtain b2 where b2: "(if len r > sz then InsertBytes (add64 offset sz) (sub64 (len r) sz) b
              else if len r < sz then DeleteBytes (add64 offset (len r)) (sub64 sz (len r)) b
              else Some b) = Some b2" "Buffer.err b2 = None" "offset + len r \<le> len (buf b2)"
    by blast
  obtain a where a: "copy_into (buf b2) offset (offset + len r) r = Some a"
    using copy_into_returns [of offset "offset + len r" "buf b2" r] b b2 r0 by auto
  show ?thesis
    using b(1,3) r(1) b2(1,2) a
    by (simp add: CompressReplace_def a1)
qed

text \<open>
  Claim C10. \<open>CompressInto\<close> and \<open>CompressReplace\<close> never reject a level. For every buffer,
  region and target, a level below \<open>-2\<close> gives exactly the result (return value, buffer
  and error state) of level \<open>-2\<close>, and a level above 9 exactly that of level 9. And with
  a library that accepts the levels from \<open>-2\<close> to 9 and compresses without error at
  these, both functions, called on a buffer without error for a region within its
  bounds, return normally and without error at every level whatsoever.
\<close>

theorem Compress_level_clamped:
  "(level < - 2 \<longrightarrow>
      CompressInto z offset sz level buffer b = CompressInto z offset sz (- 2) buffer b
      \<and> CompressReplace z offset sz level b = CompressReplace z offset sz (- 2) b)
   \<and> (9 < level \<longrightarrow>
      CompressInto z offset sz level buffer b = CompressInto z offset sz 9 buffer b
      \<and> CompressReplace z offset sz level b = CompressReplace z offset sz 9 b)
   \<and> ((\<forall>l. - 2 \<le> l \<and> l \<le> 9 \<longrightarrow>
           NewWriterLevel z l = None \<and> (\<forall>s. \<exists>out. Write_Flush z l s = Inr out))
        \<and> Buffer.err b = None \<and> 0 \<le> offset \<and> 0 \<le> sz \<and> offset + sz \<le> len (buf b)
        \<and> len (buf b) < 2 ^ 62 \<longrightarrow>
      (\<exists>r. CompressInto z offset sz level buffer b = Some (r, b))
      \<and> (\<exists>n b'. CompressReplace z offset sz level b = Some (n, b') \<and> Buffer.err b' = None))"
proof (intro conjI impI)
  assume a: "(\<forall>l. - 2 \<le> l \<and> l \<le> 9 \<longrightarrow>
           NewWriterLevel z l = None \<and> (\<forall>s. \<exists>out. Write_Flush z l s = Inr out))
        \<and> Buffer.err b = None \<and> 0 \<le> offset \<and> 0 \<le> sz \<and> offset + sz \<le> len (buf b)
        \<and> len (buf b) < 2 ^ 62"
  then have lib: "\<And>l. - 2 \<le> l \<Longrightarrow> l \<le> 9 \<Longrightarrow> NewWriterLevel z l = None"
    "\<And>l s. - 2 \<le> l \<Longrightarrow> l \<le> 9 \<Longrightarrow> \<exists>out. Write_Flush z l s = Inr out"
    and b: "Buffer.err b = None" "0 \<le> offset" "0 \<le> sz" "offset + sz \<le> len (buf b)"
      "len (buf b) < 2 ^ 62"
    by simp_all
  show "\<exists>r. CompressInto z offset sz level buffer b = Some (r, b)"
    using CompressInto_accepts [OF lib b, of level buffer] by blast
  show "\<exists>n b'. CompressReplace z offset sz level b = Some (n, b') \<and> Buffer.err b' = None"
    using CompressReplace_accepts [OF lib b, of level] by blast
qed (simp_all add: CompressReplace_def CompressInto_low CompressInto_high)

theorem Compress_level_clamped_witness:
  "(- 5 :: int) < - 2
   \<and> CompressInto example_zlib 1 2 (- 5) [] \<lparr>buf = [1, 2, 3, 4], dirty = False, err = None\<rparr>
       = Some ([254, 2], \<lparr>buf = [1, 2, 3, 4], dirty = False, err = None\<rparr>)
   \<and> CompressReplace example_zlib 1 2 (- 5) \<lparr>buf = [1, 2, 3, 4], dirty = False, err = None\<rparr>
       = Some (2, \<lparr>buf = [1, 254, 2, 4], dirty = True, err = None\<rparr>)
   \<and> (9 :: int) < 12
   \<and> CompressInto example_zlib 1 2 12 [] \<lparr>buf = [1, 2, 3, 4], dirty = False, err = None\<rparr>
       = Some ([9, 2], \<lparr>buf = [1, 2, 3, 4], dirty = False, err = None\<rparr>)
   \<and> CompressReplace example_zlib 1 2 12 \<lparr>buf = [1, 2, 3, 4], dirty = False, err = None\<rparr>
       = Some (2, \<lparr>buf = [1, 9, 2, 4], dirty = True, err = None\<rparr>)
   \<and> Buffer.err \<lparr>buf = [1, 2, 3, 4], dirty = False, err = None\<rparr> = None
   \<and> (0 :: int) \<le> 1 \<and> (0 :: int) \<le> 2
   \<and> 1 + 2 \<le> len (buf \<lparr>buf = [1, 2, 3, 4], dirty = False, err = None\<rparr>)
   \<and> len (buf \<lparr>buf = [1, 2, 3, 4], dirty = False, err = None\<rparr>) < 2 ^ 62"
proof -
  have lib: "\<forall>l. - 2 \<le> l \<and> l \<le> 9 \<longrightarrow>
         NewWriterLevel example_zlib l = None
         \<and> (\<forall>s. \<exists>out. Write_Flush example_zlib l s = Inr out)"
    by (simp add: example_zlib_def)
  show ?thesis
    using Compress_level_clamped
        [of "- 5" example_zlib 1 2 "[]" "\<lparr>buf = [1, 2, 3, 4], dirty = False, err = None\<rparr>"]
      Compress_level_clamped
        [of 12 example_zlib 1 2 "[]" "\<lparr>buf = [1, 2, 3, 4], dirty = False, err = None\<rparr>"]
      lib
    by (simp add: example_zlib_def CompressInto_def CompressReplace_def len_def add64_def
        sub64_def wrap64_def go_slice_def copy_into_def go_copy_def)
qed

section \<open>Encoding parameters of the container\<close>

text \<open>
  Claim C5, as stated, fails at \<open>SetQuality\<close>: the value 5 lies outside
  \<open>{QUALITY_LOW, QUALITY_DEFAULT, QUALITY_HIGH}\<close>, yet on a container without error the
  call sets no error and stores \<open>QUALITY_HIGH\<close>.
\<close>

theorem SetQuality_does_not_reject:
  "Pvr.err \<lparr>info = \<lparr>flags = 0, pixelType = 7, colorSpace = 0, channelType = 0, height = 4,
        width = 4, depth = 1, numSurfaces = 1, numFaces = 1, numMipMaps = 1, meta = []\<rparr>,
      img = (), err = None, quality = 1, weightByAlpha = False, useMetric = False\<rparr> = None
   \<and> 5 \<notin> {QUALITY_LOW, QUALITY_DEFAULT, QUALITY_HIGH}
   \<and> SetQuality 5 \<lparr>info = \<lparr>flags = 0, pixelType = 7, colorSpace = 0, channelType = 0, height = 4,
        width = 4, depth = 1, numSurfaces = 1, numFaces = 1, numMipMaps = 1, meta = []\<rparr>,
      img = (), err = None, quality = 1, weightByAlpha = False, useMetric = False\<rparr> = \<lparr>info = \<lparr>flags = 0, pixelType = 7, colorSpace = 0, channelType = 0, height = 4,
        width = 4, depth = 1, numSurfaces = 1, numFaces = 1, numMipMaps = 1, meta = []\<rparr>,
      img = (), err = None, quality = 1, weightByAlpha = False, useMetric = False\<rparr>\<lparr>quality := QUALITY_HIGH\<rparr>
   \<and> \<not> (Pvr.err (SetQuality 5 \<lparr>info = \<lparr>flags = 0, pixelType = 7, colorSpace = 0, channelType = 0, height = 4,
        width = 4, depth = 1, numSurfaces = 1, numFaces = 1, numMipMaps = 1, meta = []\<rparr>,
      img = (), err = None, quality = 1, weightByAlpha = False, useMetric = False\<rparr>) = Some ErrIllegalArguments
          \<and> quality (SetQuality 5 \<lparr>info = \<lparr>flags = 0, pixelType = 7, colorSpace = 0, channelType = 0, height = 4,
        width = 4, depth = 1, numSurfaces = 1, numFaces = 1, numMipMaps = 1, meta = []\<rparr>,
      img = (), err = None, quality = 1, weightByAlpha = False, useMetric = False\<rparr>) = quality \<lparr>info = \<lparr>flags = 0, pixelType = 7, colorSpace = 0, channelType = 0, height = 4,
        width = 4, depth = 1, numSurfaces = 1, numFaces = 1, numMipMaps = 1, meta = []\<rparr>,
      img = (), err = None, quality = 1, weightByAlpha = False, useMetric = False\<rparr>)"
  by (simp add: SetQuality_def QUALITY_LOW_def QUALITY_DEFAULT_def QUALITY_HIGH_def)

text \<open>
  Claim C5, amended. On a container without error, \<open>SetPixelType\<close>, \<open>SetChannelType\<close> and
  \<open>SetColorSpace\<close> called with a value outside their enumeration set the error
  \<open>ErrIllegalArguments\<close> and change nothing else. \<open>SetQuality\<close> rejects no value: it stores
  its argument clamped to \<open>[QUALITY_LOW, QUALITY_HIGH]\<close> and sets no error.
  \<open>SetWeightByAlpha\<close> and \<open>SetPerceptiveMetric\<close> take a \<open>bool\<close>, which has no value outside
  the enumeration, and store it.
\<close>

theorem setters_validate:
  assumes "Pvr.err p = None"
  shows "(t \<notin> {TYPE_BC1, TYPE_BC2, TYPE_BC3} \<longrightarrow>
            SetPixelType t p = p\<lparr>Pvr.err := Some ErrIllegalArguments\<rparr>)
       \<and> (c \<notin> {CHAN_UBN, CHAN_SBN, CHAN_UB, CHAN_SB} \<longrightarrow>
            SetChannelType c p = p\<lparr>Pvr.err := Some ErrIllegalArguments\<rparr>)
       \<and> (s \<notin> {SPACE_LRGB, SPACE_SRGB} \<longrightarrow>
            SetColorSpace s p = p\<lparr>Pvr.err := Some ErrIllegalArguments\<rparr>)
       \<and> SetQuality q p =
            p\<lparr>quality := (if q < QUALITY_LOW then QUALITY_LOW
                           else if q > QUALITY_HIGH then QUALITY_HIGH else q)\<rparr>
       \<and> SetWeightByAlpha wa p = p\<lparr>weightByAlpha := wa\<rparr>
       \<and> SetPerceptiveMetric pm p = p\<lparr>useMetric := pm\<rparr>"
proof -
  have "c \<notin> {CHAN_UBN, CHAN_SBN, CHAN_UB, CHAN_SB} \<Longrightarrow> c < CHAN_UBN \<or> c > CHAN_SB"
    by (auto simp: CHAN_UBN_def CHAN_SBN_def CHAN_UB_def CHAN_SB_def)
  then show ?thesis
    using assms
    by (auto simp: SetPixelType_def pixelTypeSupported_def SetChannelType_def SetColorSpace_def
        SetQuality_def SetWeightByAlpha_def SetPerceptiveMetric_def
        QUALITY_LOW_def QUALITY_HIGH_def)
qed

theorem setters_validate_witness:
  "Pvr.err \<lparr>info = \<lparr>flags = 0, pixelType = 7, colorSpace = 0, channelType = 0, height = 4,
        width = 4, depth = 1, numSurfaces = 1, numFaces = 1, numMipMaps = 1, meta = []\<rparr>,
      img = (), err = None, quality = 1, weightByAlpha = False, useMetric = False\<rparr> = None
   \<and> 8 \<notin> {TYPE_BC1, TYPE_BC2, TYPE_BC3}
   \<and> SetPixelType 8 \<lparr>info = \<lparr>flags = 0, pixelType = 7, colorSpace = 0, channelType = 0, height = 4,
        width = 4, depth = 1, numSurfaces = 1, numFaces = 1, numMipMaps = 1, meta = []\<rparr>,
      img = (), err = None, quality = 1, weightByAlpha = False, useMetric = False\<rparr> = \<lparr>info = \<lparr>flags = 0, pixelType = 7, colorSpace = 0, channelType = 0, height = 4,
        width = 4, depth = 1, numSurfaces = 1, numFaces = 1, numMipMaps = 1, meta = []\<rparr>,
      img = (), err = None, quality = 1, weightByAlpha = False, useMetric = False\<rparr>\<lparr>Pvr.err := Some ErrIllegalArguments\<rparr>
   \<and> 4 \<notin> {CHAN_UBN, CHAN_SBN, CHAN_UB, CHAN_SB}
   \<and> SetChannelType 4 \<lparr>info = \<lparr>flags = 0, pixelType = 7, colorSpace = 0, channelType = 0, height = 4,
        width = 4, depth = 1, numSurfaces = 1, numFaces = 1, numMipMaps = 1, meta = []\<rparr>,
      img = (), err = None, quality = 1, weightByAlpha = False, useMetric = False\<rparr> = \<lparr>info = \<lparr>flags = 0, pixelType = 7, colorSpace = 0, channelType = 0, height = 4,
        width = 4, depth = 1, numSurfaces = 1, numFaces = 1, numMipMaps = 1, meta = []\<rparr>,
      img = (), err = None, quality = 1, weightByAlpha = False, useMetric = False\<rparr>\<lparr>Pvr.err := Some ErrIllegalArguments\<rparr>
   \<and> 2 \<notin> {SPACE_LRGB, SPACE_SRGB}
   \<and> SetColorSpace 2 \<lparr>info = \<lparr>flags = 0, pixelType = 7, colorSpace = 0, channelType = 0, height = 4,
        width = 4, depth = 1, numSurfaces = 1, numFaces = 1, numMipMaps = 1, meta = []\<rparr>,
      img = (), err = None, quality = 1, weightByAlpha = False, useMetric = False\<rparr> = \<lparr>info = \<lparr>flags = 0, pixelType = 7, colorSpace = 0, channelType = 0, height = 4,
        width = 4, depth = 1, numSurfaces = 1, numFaces = 1, numMipMaps = 1, meta = []\<rparr>,
      img = (), err = None, quality = 1, weightByAlpha = False, useMetric = False\<rparr>\<lparr>Pvr.err := Some ErrIllegalArguments\<rparr>
   \<and> SetQuality (- 1) \<lparr>info = \<lparr>flags = 0, pixelType = 7, colorSpace = 0, channelType = 0, height = 4,
        width = 4, depth = 1, numSurfaces = 1, numFaces = 1, numMipMaps = 1, meta = []\<rparr>,
      img = (), err = None, quality = 1, weightByAlpha = False, useMetric = False\<rparr> = \<lparr>info = \<lparr>flags = 0, pixelType = 7, colorSpace = 0, channelType = 0, height = 4,
        width = 4, depth = 1, numSurfaces = 1, numFaces = 1, numMipMaps = 1, meta = []\<rparr>,
      img = (), err = None, quality = 1, weightByAlpha = False, useMetric = False\<rparr>\<lparr>quality := 0\<rparr>"
  using setters_validate [of "\<lparr>info = \<lparr>flags = 0, pixelType = 7, colorSpace = 0, channelType = 0, height = 4,
        width = 4, depth = 1, numSurfaces = 1, numFaces = 1, numMipMaps = 1, meta = []\<rparr>,
      img = (), err = None, quality = 1, weightByAlpha = False, useMetric = False\<rparr>" 8 4 2 "- 1"]
  by (simp add: TYPE_BC1_def TYPE_BC2_def TYPE_BC3_def CHAN_UBN_def CHAN_SBN_def CHAN_UB_def
      CHAN_SB_def SPACE_LRGB_def SPACE_SRGB_def QUALITY_LOW_def QUALITY_HIGH_def)


section \<open>The error state\<close>

lemma sticky_getters:
  assumes "Buffer.err b \<noteq> None"
  shows "GetUint8 off b = Some (0, b)" "GetInt8 off b = Some (0, b)"
    "GetUint16 off b = Some (0, b)" "GetInt16 off b = Some (0, b)"
    "GetUint32 off b = Some (0, b)" "GetInt32 off b = Some (0, b)"
    "GetUint off bits b = Some (0, b)" "GetInt off bits b = Some (0, b)"
    "GetStringEx W off sz null cmap b = Some ([], b)"
    "GetString W off sz null b = Some ([], b)"
    "GetBuffer off sz b = Some ([], b)"
    "Bytes b = []"
  using assms
  by (simp_all add: GetUint8_def GetInt8_def GetUint16_def GetInt16_def GetUint32_def GetInt32_def
      GetUint_def GetInt_def GetStringEx_def GetString_def GetBuffer_def Bytes_def)

lemma sticky_putters:
  assumes "Buffer.err b \<noteq> None"
  shows "PutUint8 off v8 b = Some (0, b)" "PutInt8 off v8 b = Some (0, b)"
    "PutUint16 off v16 b = Some (0, b)" "PutInt16 off v16 b = Some (0, b)"
    "PutUint32 off v32 b = Some (0, b)" "PutInt32 off v32 b = Some (0, b)"
    "PutStringEx W off sz str cmap b = Some b"
    "PutString W off sz str b = Some b"
    "PutBuffer off bs b = Some b"
    "InsertBytes off sz b = Some b" "DeleteBytes off sz b = Some b"
    "Save Write w b = (b, w)"
  using assms
  by (simp_all add: PutUint8_def PutInt8_def PutUint16_def PutInt16_def PutUint32_def PutInt32_def
      PutStringEx_def PutString_def PutBuffer_def InsertBytes_def DeleteBytes_def Save_def)

lemma sticky_codec:
  assumes "Buffer.err b \<noteq> None"
  shows "DecompressInto z off sz target b = Some (target, b)"
    "DecompressReplace z off sz b = Some (0, b)"
    "CompressInto z off sz level target b = Some (target, b)"
    "CompressReplace z off sz level b = Some (0, b)"
    "GetOffsetArray sevenValues b = Some ([], b)"
    "GetOffsetArray2 off2 sevenValues b = Some ([], b)"
  using assms
  by (simp_all add: DecompressInto_def DecompressReplace_def CompressInto_def CompressReplace_def
      GetOffsetArray_def GetOffsetArray2_def)

lemma sticky_Pvr:
  assumes "Pvr.err p \<noteq> None"
  shows "Pvr_Save X z Write w compress p = Some (p, w)"
    "SetImage X im0 p = p" "GetImage X p = None"
    "SetImageRect X im r dp p = p" "GetImageRect X r p = None"
    "FillImageRect X r col p = p"
    "GetWidth p = 0" "GetHeight p = 0" "SetDimension X wd ht preserve p = p"
    "SetPixelType pt p = p"
    "GetChannelType p = 0" "SetChannelType ct p = p"
    "GetColorSpace p = 0" "SetColorSpace cs p = p"
    "GetQuality p = 0" "SetQuality q p = p"
    "GetWeightByAlpha p = False" "SetWeightByAlpha wa p = p"
    "IsPerceptiveMetric p = False" "SetPerceptiveMetric pm p = p"
  using assms
  by (simp_all add: Pvr_Save_def SetImage_def GetImage_def SetImageRect_def GetImageRect_def
      FillImageRect_def GetWidth_def GetHeight_def SetDimension_def SetPixelType_def
      GetChannelType_def SetChannelType_def GetColorSpace_def SetColorSpace_def GetQuality_def
      SetQuality_def GetWeightByAlpha_def SetWeightByAlpha_def IsPerceptiveMetric_def
      SetPerceptiveMetric_def)

text \<open>
  For the record, \<open>GetPixelType\<close> is the one getter of \<open>Pvr\<close> without a test of the error
  state: it returns the stored pixel type whether or not the error is set.
\<close>

lemma GetPixelType_ignores_error: "GetPixelType (p\<lparr>Pvr.err := e\<rparr>) = pixelType (info p)"
  by (simp add: GetPixelType_def)

text \<open>
  Claim C2, as stated, fails at \<open>ReplaceBuffer\<close>: on a buffer whose error is set it is no
  no-op; it replaces the content, marks the buffer modified and clears the error, as
  its documentation says.
\<close>

theorem ReplaceBuffer_resumes:
  "Buffer.err \<lparr>buf = [1, 2], dirty = False, err = Some ErrOffsetOutOfRange\<rparr> \<noteq> None
   \<and> ReplaceBuffer (Some [7]) \<lparr>buf = [1, 2], dirty = False, err = Some ErrOffsetOutOfRange\<rparr> = \<lparr>buf = [7], dirty = True, err = None\<rparr>
   \<and> ReplaceBuffer (Some [7]) \<lparr>buf = [1, 2], dirty = False, err = Some ErrOffsetOutOfRange\<rparr> \<noteq> \<lparr>buf = [1, 2], dirty = False, err = Some ErrOffsetOutOfRange\<rparr>"
  by (simp add: ReplaceBuffer_def)

text \<open>
  Claim C2, amended. While the error of a \<open>Buffer\<close> is set, \<open>Save\<close>, \<open>Bytes\<close>, every typed,
  string and raw reader and writer, \<open>InsertBytes\<close>, \<open>DeleteBytes\<close>, the four compression
  functions and the two offset-array functions return normally, leave the buffer (and
  the writer) as they are and return zero or an empty value (\<open>DecompressInto\<close> and
  \<open>CompressInto\<close> return the target they were given). The operations that do not
  consult the error are: \<open>Error\<close>, \<open>BufferLength\<close> and \<open>IsModified\<close>, which report the
  state; \<open>ClearModified\<close>, which clears the modification flag; \<open>ReplaceBuffer\<close>, which
  installs new content and clears the error; and \<open>ClearError\<close>. While the error of a
  \<open>Pvr\<close> is set, \<open>Save\<close> and every setter leave it (and the writer) as it is, and every
  getter other than \<open>GetPixelType\<close> and \<open>Error\<close> returns 0, false or nil; \<open>ClearError\<close>
  clears the error and nothing else. \<open>GetPixelType\<close> is not covered.
\<close>

theorem sticky_error:
  "(Buffer.err b \<noteq> None \<longrightarrow>
       Save Write w b = (b, w) \<and> Bytes b = []
     \<and> GetUint8 off b = Some (0, b) \<and> GetInt8 off b = Some (0, b)
     \<and> GetUint16 off b = Some (0, b) \<and> GetInt16 off b = Some (0, b)
     \<and> GetUint32 off b = Some (0, b) \<and> GetInt32 off b = Some (0, b)
     \<and> GetUint off bits b = Some (0, b) \<and> GetInt off bits b = Some (0, b)
     \<and> GetStringEx W off sz null cmap b = Some ([], b)
     \<and> GetString W off sz null b = Some ([], b)
     \<and> GetBuffer off sz b = Some ([], b)
     \<and> PutUint8 off v8 b = Some (0, b) \<and> PutInt8 off v8 b = Some (0, b)
     \<and> PutUint16 off v16 b = Some (0, b) \<and> PutInt16 off v16 b = Some (0, b)
     \<and> PutUint32 off v32 b = Some (0, b) \<and> PutInt32 off v32 b = Some (0, b)
     \<and> PutStringEx W off sz str cmap b = Some b \<and> PutString W off sz str b = Some b
     \<and> PutBuffer off bs b = Some b
     \<and> InsertBytes off sz b = Some b \<and> DeleteBytes off sz b = Some b
     \<and> DecompressInto z off sz target b = Some (target, b)
     \<and> DecompressReplace z off sz b = Some (0, b)
     \<and> CompressInto z off sz level target b = Some (target, b)
     \<and> CompressReplace z off sz level b = Some (0, b)
     \<and> GetOffsetArray sevenValues b = Some ([], b)
     \<and> GetOffsetArray2 off2 sevenValues b = Some ([], b)
     \<and> Error b = Buffer.err b \<and> BufferLength b = len (buf b) \<and> IsModified b = dirty b
     \<and> ClearModified b = b\<lparr>dirty := False\<rparr>
     \<and> ReplaceBuffer nbuf b =
         b\<lparr>buf := (case nbuf of None \<Rightarrow> [] | Some s \<Rightarrow> s), dirty := True, Buffer.err := None\<rparr>
     \<and> ClearError b = b\<lparr>Buffer.err := None\<rparr>)
   \<and> (Pvr.err p \<noteq> None \<longrightarrow>
       Pvr_Save X z Write w compress p = Some (p, w)
     \<and> SetImage X im0 p = p \<and> GetImage X p = None
     \<and> SetImageRect X im r dp p = p \<and> GetImageRect X r p = None
     \<and> FillImageRect X r col p = p
     \<and> GetWidth p = 0 \<and> GetHeight p = 0 \<and> SetDimension X wd ht preserve p = p
     \<and> SetPixelType pt p = p
     \<and> GetChannelType p = 0 \<and> SetChannelType ct p = p
     \<and> GetColorSpace p = 0 \<and> SetColorSpace cs p = p
     \<and> GetQuality p = 0 \<and> SetQuality q p = p
     \<and> GetWeightByAlpha p = False \<and> SetWeightByAlpha wa p = p
     \<and> IsPerceptiveMetric p = False \<and> SetPerceptiveMetric pm p = p
     \<and> Pvr_Error p = Pvr.err p
     \<and> Pvr_ClearError p = p\<lparr>Pvr.err := None\<rparr>)"
proof (intro conjI impI)
  assume e: "Pvr.err p \<noteq> None"
  show "Pvr_Error p = Pvr.err p" "Pvr_ClearError p = p\<lparr>Pvr.err := None\<rparr>"
    by (simp_all add: Pvr_Error_def Pvr_ClearError_def)
next
  assume e: "Buffer.err b \<noteq> None"
  show "Error b = Buffer.err b" "BufferLength b = len (buf b)" "IsModified b = dirty b"
    "ClearModified b = b\<lparr>dirty := False\<rparr>"
    "ReplaceBuffer nbuf b =
       b\<lparr>buf := (case nbuf of None \<Rightarrow> [] | Some s \<Rightarrow> s), dirty := True, Buffer.err := None\<rparr>"
    "ClearError b = b\<lparr>Buffer.err := None\<rparr>"
    by (simp_all add: Error_def BufferLength_def IsModified_def ClearModified_def
        ReplaceBuffer_def ClearError_def)
qed (rule sticky_getters sticky_putters sticky_codec sticky_Pvr, assumption)+

theorem sticky_error_witness:
  "Buffer.err \<lparr>buf = [1, 2], dirty = False, err = Some ErrOffsetOutOfRange\<rparr> \<noteq> None
   \<and> GetUint32 0 \<lparr>buf = [1, 2], dirty = False, err = Some ErrOffsetOutOfRange\<rparr> = Some (0, \<lparr>buf = [1, 2], dirty = False, err = Some ErrOffsetOutOfRange\<rparr>)
   \<and> PutUint8 1 9 \<lparr>buf = [1, 2], dirty = False, err = Some ErrOffsetOutOfRange\<rparr> = Some (0, \<lparr>buf = [1, 2], dirty = False, err = Some ErrOffsetOutOfRange\<rparr>)
   \<and> InsertBytes 0 4 \<lparr>buf = [1, 2], dirty = False, err = Some ErrOffsetOutOfRange\<rparr> = Some \<lparr>buf = [1, 2], dirty = False, err = Some ErrOffsetOutOfRange\<rparr>
   \<and> Bytes \<lparr>buf = [1, 2], dirty = False, err = Some ErrOffsetOutOfRange\<rparr> = []
   \<and> Pvr.err \<lparr>info = \<lparr>flags = 0, pixelType = 7, colorSpace = 1, channelType = 2, height = 4,
        width = 8, depth = 1, numSurfaces = 1, numFaces = 1, numMipMaps = 1, meta = []\<rparr>,
      img = (), err = Some ErrIllegalArguments, quality = 2, weightByAlpha = True,
      useMetric = True\<rparr> \<noteq> None
   \<and> GetWidth \<lparr>info = \<lparr>flags = 0, pixelType = 7, colorSpace = 1, channelType = 2, height = 4,
        width = 8, depth = 1, numSurfaces = 1, numFaces = 1, numMipMaps = 1, meta = []\<rparr>,
      img = (), err = Some ErrIllegalArguments, quality = 2, weightByAlpha = True,
      useMetric = True\<rparr> = 0
   \<and> SetQuality 0 \<lparr>info = \<lparr>flags = 0, pixelType = 7, colorSpace = 1, channelType = 2, height = 4,
        width = 8, depth = 1, numSurfaces = 1, numFaces = 1, numMipMaps = 1, meta = []\<rparr>,
      img = (), err = Some ErrIllegalArguments, quality = 2, weightByAlpha = True,
      useMetric = True\<rparr> = \<lparr>info = \<lparr>flags = 0, pixelType = 7, colorSpace = 1, channelType = 2, height = 4,
        width = 8, depth = 1, numSurfaces = 1, numFaces = 1, numMipMaps = 1, meta = []\<rparr>,
      img = (), err = Some ErrIllegalArguments, quality = 2, weightByAlpha = True,
      useMetric = True\<rparr>"
  by (simp add: sticky_error)

section \<open>Offsets out of range\<close>

lemma range_typed_1:
  assumes "Buffer.err b = None" "offset < 0 \<or> offset + 1 > len (buf b)"
  shows "GetUint8 offset b = Some (0, b\<lparr>Buffer.err := Some ErrOffsetOutOfRange\<rparr>)"
    "GetInt8 offset b = Some (0, b\<lparr>Buffer.err := Some ErrOffsetOutOfRange\<rparr>)"
    "PutUint8 offset v8 b = Some (0, b\<lparr>Buffer.err := Some ErrOffsetOutOfRange\<rparr>)"
    "PutInt8 offset v8 b = Some (0, b\<lparr>Buffer.err := Some ErrOffsetOutOfRange\<rparr>)"
  using assms by (auto simp: GetUint8_def GetInt8_def PutUint8_def PutInt8_def)

lemma range_typed_2:
  assumes "Buffer.err b = None" "offset < 0 \<or> is_int (offset + 2) \<and> offset + 2 > len (buf b)"
  shows "GetUint16 offset b = Some (0, b\<lparr>Buffer.err := Some ErrOffsetOutOfRange\<rparr>)"
    "GetInt16 offset b = Some (0, b\<lparr>Buffer.err := Some ErrOffsetOutOfRange\<rparr>)"
    "PutUint16 offset v16 b = Some (0, b\<lparr>Buffer.err := Some ErrOffsetOutOfRange\<rparr>)"
    "PutInt16 offset v16 b = Some (0, b\<lparr>Buffer.err := Some ErrOffsetOutOfRange\<rparr>)"
  using assms by (auto simp: GetUint16_def GetInt16_def PutUint16_def PutInt16_def add64_id)

lemma range_typed_4:
  assumes "Buffer.err b = None" "offset < 0 \<or> is_int (offset + 4) \<and> offset + 4 > len (buf b)"
  shows "GetUint32 offset b = Some (0, b\<lparr>Buffer.err := Some ErrOffsetOutOfRange\<rparr>)"
    "GetInt32 offset b = Some (0, b\<lparr>Buffer.err := Some ErrOffsetOutOfRange\<rparr>)"
    "PutUint32 offset v32 b = Some (0, b\<lparr>Buffer.err := Some ErrOffsetOutOfRange\<rparr>)"
    "PutInt32 offset v32 b = Some (0, b\<lparr>Buffer.err := Some ErrOffsetOutOfRange\<rparr>)"
  using assms by (auto simp: GetUint32_def GetInt32_def PutUint32_def PutInt32_def add64_id)

lemma range_sized:
  assumes "Buffer.err b = None" "offset < 0 \<or> is_int (offset + sz) \<and> offset + sz > len (buf b)"
  shows "GetBuffer offset sz b = Some ([], b\<lparr>Buffer.err := Some ErrOffsetOutOfRange\<rparr>)"
    "DecompressInto z offset sz target b
       = Some (target, b\<lparr>Buffer.err := Some ErrOffsetOutOfRange\<rparr>)"
    "CompressInto z offset sz level target b
       = Some (target, b\<lparr>Buffer.err := Some ErrOffsetOutOfRange\<rparr>)"
    "0 < sz \<Longrightarrow> GetStringEx W offset sz null cmap b
       = Some ([], b\<lparr>Buffer.err := Some ErrOffsetOutOfRange\<rparr>)"
    "0 < sz \<Longrightarrow> PutStringEx W offset sz str cmap b
       = Some (b\<lparr>Buffer.err := Some ErrOffsetOutOfRange\<rparr>)"
  using assms
  by (auto simp: GetBuffer_def DecompressInto_def CompressInto_def GetStringEx_def
      PutStringEx_def add64_id)

lemma range_replace:
  assumes "Buffer.err b = None" "is_int offset"
    "offset < 0 \<or> is_int (offset + sz) \<and> offset + sz > len (buf b)"
  shows "DecompressReplace z offset sz b = Some (0, b\<lparr>Buffer.err := Some ErrOffsetOutOfRange\<rparr>)"
    "CompressReplace z offset sz level b = Some (0, b\<lparr>Buffer.err := Some ErrOffsetOutOfRange\<rparr>)"
proof -
  have z: "add64 offset 0 = offset" using assms(2) by (simp add: add64_id)
  have d: "DecompressInto z offset (if sz < 0 then 0 else sz) [] b
      = Some ([], b\<lparr>Buffer.err := Some ErrOffsetOutOfRange\<rparr>)"
    using assms by (auto simp: DecompressInto_def add64_id)
  have c: "CompressInto z offset (if sz < 0 then 0 else sz) level [] b
      = Some ([], b\<lparr>Buffer.err := Some ErrOffsetOutOfRange\<rparr>)"
    using assms z by (auto simp: CompressInto_def add64_id)
  show "DecompressReplace z offset sz b = Some (0, b\<lparr>Buffer.err := Some ErrOffsetOutOfRange\<rparr>)"
    using assms(1) d by (simp add: DecompressReplace_def)
  show "CompressReplace z offset sz level b = Some (0, b\<lparr>Buffer.err := Some ErrOffsetOutOfRange\<rparr>)"
    using assms(1) c by (simp add: CompressReplace_def)
qed

lemma range_PutBuffer:
  assumes "Buffer.err b = None"
    "offset < 0 \<or> is_int (offset + len bs) \<and> offset + len bs > len (buf b)"
  shows "PutBuffer offset bs b = Some (b\<lparr>Buffer.err := Some ErrOffsetOutOfRange\<rparr>)"
  using assms by (auto simp: PutBuffer_def add64_id)

lemma range_insert_delete:
  assumes "Buffer.err b = None" "offset < 0 \<or> offset > len (buf b)"
  shows "InsertBytes offset sz b = Some (b\<lparr>Buffer.err := Some ErrOffsetOutOfRange\<rparr>)"
    "DeleteBytes offset sz b = Some (b\<lparr>Buffer.err := Some ErrOffsetOutOfRange\<rparr>)"
  using assms by (auto simp: InsertBytes_def DeleteBytes_def)

text \<open>
  \<open>InsertBytes\<close> checks the insertion point only: on the empty buffer without error,
  offset 0 and size 1 set no error and grow the buffer by one zero byte.
\<close>

lemma InsertBytes_beyond_length:
  "InsertBytes 0 1 \<lparr>buf = [], dirty = False, err = None\<rparr>
     = Some \<lparr>buf = [0], dirty = True, err = None\<rparr>"
  by (simp add: InsertBytes_def len_def go_make_def go_append_def is_int_def go_slice_def
      copy_into_def go_copy_def add64_def wrap64_def)

text \<open>
  The range checks that are in place. Let the buffer be without error, and call a region
  \<open>(offset, n)\<close> out of range when \<open>offset < 0\<close>, or \<open>offset + n\<close> exceeds the length and is
  an \<open>int\<close> (does not overflow). Then the call returns normally, sets
  \<open>ErrOffsetOutOfRange\<close>, changes nothing else and returns zero or the empty value, for
  \<^item> the typed readers and writers, with \<open>n\<close> the width 1, 2 or 4 of the value;
  \<^item> \<open>GetBuffer\<close>, \<open>PutBuffer\<close> (\<open>n\<close> the length of the bytes), \<open>DecompressInto\<close> and
    \<open>CompressInto\<close> (which return the target they were given), \<open>DecompressReplace\<close> and
    \<open>CompressReplace\<close>;
  \<^item> \<open>GetStringEx\<close>, \<open>GetString\<close>, \<open>PutStringEx\<close> and \<open>PutString\<close> when the size is positive
    (a size \<open>\<le> 0\<close> returns at once without error);
  \<^item> \<open>InsertBytes\<close> and \<open>DeleteBytes\<close> when \<open>offset < 0\<close> or \<open>offset\<close> exceeds the length.
\<close>

lemma out_of_range_sets_error:
  assumes "Buffer.err b = None" and "is_int offset"
  defines "b' \<equiv> b\<lparr>Buffer.err := Some ErrOffsetOutOfRange\<rparr>"
  shows
   "(offset < 0 \<or> offset + 1 > len (buf b) \<longrightarrow>
       GetUint8 offset b = Some (0, b') \<and> GetInt8 offset b = Some (0, b')
     \<and> PutUint8 offset v8 b = Some (0, b') \<and> PutInt8 offset v8 b = Some (0, b')
     \<and> (bits \<le> 8 \<longrightarrow> GetUint offset bits b = Some (0, b') \<and> GetInt offset bits b = Some (0, b')))
  \<and> (offset < 0 \<or> is_int (offset + 2) \<and> offset + 2 > len (buf b) \<longrightarrow>
       GetUint16 offset b = Some (0, b') \<and> GetInt16 offset b = Some (0, b')
     \<and> PutUint16 offset v16 b = Some (0, b') \<and> PutInt16 offset v16 b = Some (0, b')
     \<and> (8 < bits \<and> bits \<le> 16 \<longrightarrow>
          GetUint offset bits b = Some (0, b') \<and> GetInt offset bits b = Some (0, b')))
  \<and> (offset < 0 \<or> is_int (offset + 4) \<and> offset + 4 > len (buf b) \<longrightarrow>
       GetUint32 offset b = Some (0, b') \<and> GetInt32 offset b = Some (0, b')
     \<and> PutUint32 offset v32 b = Some (0, b') \<and> PutInt32 offset v32 b = Some (0, b')
     \<and> (16 < bits \<longrightarrow>
          GetUint offset bits b = Some (0, b') \<and> GetInt offset bits b = Some (0, b')))
  \<and> (offset < 0 \<or> is_int (offset + sz) \<and> offset + sz > len (buf b) \<longrightarrow>
       GetBuffer offset sz b = Some ([], b')
     \<and> DecompressInto z offset sz target b = Some (target, b')
     \<and> DecompressReplace z offset sz b = Some (0, b')
     \<and> CompressInto z offset sz level target b = Some (target, b')
     \<and> CompressReplace z offset sz level b = Some (0, b')
     \<and> (0 < sz \<longrightarrow>
          GetStringEx W offset sz null cmap b = Some ([], b')
        \<and> GetString W offset sz null b = Some ([], b')
        \<and> PutStringEx W offset sz str cmap b = Some b'
        \<and> PutString W offset sz str b = Some b'))
  \<and> (offset < 0 \<or> is_int (offset + len bs) \<and> offset + len bs > len (buf b) \<longrightarrow>
       PutBuffer offset bs b = Some b')
  \<and> (offset < 0 \<or> offset > len (buf b) \<longrightarrow>
       InsertBytes offset sz b = Some b' \<and> DeleteBytes offset sz b = Some b')"
  unfolding b'_def
  by (intro conjI impI)
    (simp_all add: GetUint_def GetInt_def GetString_def PutString_def
      range_typed_1 [OF assms(1)] range_typed_2 [OF assms(1)] range_typed_4 [OF assms(1)]
      range_sized [OF assms(1)] range_replace [OF assms(1,2)] range_PutBuffer [OF assms(1)]
      range_insert_delete [OF assms(1)])

text \<open>
  Claim C3. The claim that every offset-taking operation called with
  \<open>offset + size > length\<close> sets \<open>ErrOffsetOutOfRange\<close> and returns normally with the
  content unchanged, \<open>DeleteBytes\<close> in particular, does not hold of the code:
  \<open>DeleteBytes\<close> compares the offset with the length but never the size. On the buffer
  \<open>[1, 2, 3, 4]\<close> without error, \<open>DeleteBytes(1, 5)\<close> panics at the slice expression
  \<open>b.buf[:len(b.buf)-size]\<close>, and \<open>DeleteBytes(2, 3)\<close> cuts the buffer to \<open>[1]\<close>, marks it
  modified and sets no error. \<open>GetBuffer\<close> on the same buffer with the same two regions
  sets the error and leaves the content as it is.
\<close>

theorem DeleteBytes_beyond_end:
  "Buffer.err \<lparr>buf = [1, 2, 3, 4], dirty = False, err = None\<rparr> = None
   \<and> 1 + 5 > len (buf \<lparr>buf = [1, 2, 3, 4], dirty = False, err = None\<rparr>)
   \<and> DeleteBytes 1 5 \<lparr>buf = [1, 2, 3, 4], dirty = False, err = None\<rparr> = None
   \<and> 2 + 3 > len (buf \<lparr>buf = [1, 2, 3, 4], dirty = False, err = None\<rparr>)
   \<and> DeleteBytes 2 3 \<lparr>buf = [1, 2, 3, 4], dirty = False, err = None\<rparr>
       = Some \<lparr>buf = [1], dirty = True, err = None\<rparr>
   \<and> GetBuffer 1 5 \<lparr>buf = [1, 2, 3, 4], dirty = False, err = None\<rparr>
       = Some ([], \<lparr>buf = [1, 2, 3, 4], dirty = False, err = Some ErrOffsetOutOfRange\<rparr>)
   \<and> GetBuffer 2 3 \<lparr>buf = [1, 2, 3, 4], dirty = False, err = None\<rparr>
       = Some ([], \<lparr>buf = [1, 2, 3, 4], dirty = False, err = Some ErrOffsetOutOfRange\<rparr>)"
  by (simp add: DeleteBytes_def GetBuffer_def len_def go_slice_def sub64_def add64_def
      wrap64_def)

section \<open>Failed imports\<close>

lemma keeps_fail: "keeps p (Some (p\<lparr>Pvr.err := Some e\<rparr>))"
  unfolding keeps_def by (simp, blast)

lemma keeps_fail': "e \<noteq> None \<Longrightarrow> keeps p (Some (p\<lparr>Pvr.err := e\<rparr>))"
  by (auto simp: keeps_def)

lemma keeps_done: "Pvr.err q = Pvr.err p \<Longrightarrow> keeps p (Some q)"
  by (simp add: keeps_def)

lemma keeps_bind: "(\<And>x. keeps p (f x)) \<Longrightarrow> keeps p (m \<bind> f)"
  by (cases m) (simp_all add: keeps_def)

lemma keeps_if: "(c \<Longrightarrow> keeps p a) \<Longrightarrow> (\<not> c \<Longrightarrow> keeps p b) \<Longrightarrow> keeps p (if c then a else b)"
  by simp

lemma keeps_prod: "(\<And>a b. keeps p (f a b)) \<Longrightarrow> keeps p (case x of (a, b) \<Rightarrow> f a b)"
  by (cases x) simp

lemma keeps_option:
  "keeps p a \<Longrightarrow> (\<And>x. keeps p (f x)) \<Longrightarrow> keeps p (case m of None \<Rightarrow> a | Some x \<Rightarrow> f x)"
  by (cases m) simp_all

lemmas keeps_intros = keeps_fail keeps_bind keeps_if keeps_prod keeps_option

lemma parse_header_keeps: "keeps p (parse_header X sig b0 p)"
  unfolding parse_header_def Let_def
  by (intro keeps_intros keeps_done) simp

lemma importPvr_keeps: "keeps p (importPvr X z data p)"
  unfolding importPvr_def Let_def
  by (intro keeps_intros keeps_fail' parse_header_keeps) simp_all

lemma keeps_failed:
  assumes "keeps p (Some p')" "Pvr.err p = None" "Pvr.err p' \<noteq> None"
  shows "p' = p\<lparr>Pvr.err := Pvr.err p'\<rparr>"
  using assms by (auto simp: keeps_def)

lemma importPvr_size_limits:
  assumes "4 \<le> len d" "GetInt32 0 (Wrap (Some d)) = Some (v, b)"
    "sint v \<noteq> versionSig" "sint v < 0x34 \<or> sint v > 2 ^ 25"
  shows "importPvr X z (Some d) p
    = Some (p\<lparr>Pvr.err := Some (ErrFmt ''PVR target size outside of accepted limits: %d'' [sint v])\<rparr>)"
proof -
  have "Error (Wrap (Some d)) = None" "\<not> BufferLength (Wrap (Some d)) < 4"
    using assms(1) by (simp_all add: Error_def Wrap_def BufferLength_def)
  then show ?thesis
    using assms(2-4) by (simp add: importPvr_def Let_def)
qed

lemma GetInt32_returns:
  assumes "Buffer.err b = None" "0 \<le> k" "k + 4 \<le> len (buf b)" "len (buf b) < 2 ^ 62"
  shows "\<exists>v. GetInt32 k b = Some (v, b)"
proof -
  have a: "add64 k 4 = k + 4"
    using assms by (intro add64_id) (simp add: is_int_def)
  have s: "go_slice (buf b) k (len (buf b)) = Some (drop (nat k) (buf b))"
    using assms by (simp add: go_slice_def len_def)
  have "3 < len (drop (nat k) (buf b))"
    using assms by (simp add: len_def)
  then have "\<exists>v. LE_Uint32 (drop (nat k) (buf b)) = Some v"
    by (simp add: LE_Uint32_def go_index_def)
  then show ?thesis
    using assms by (auto simp: GetInt32_def GetUint32_def a s)
qed

lemma GetBuffer_returns:
  assumes "Buffer.err b = None" "0 \<le> k" "0 \<le> n" "k + n \<le> len (buf b)" "len (buf b) < 2 ^ 62"
  shows "\<exists>r. GetBuffer k n b = Some (r, b)"
proof -
  have a: "add64 k n = k + n"
    using assms by (intro add64_id) (simp add: is_int_def)
  show ?thesis
    using assms by (simp add: GetBuffer_def a go_make_def go_slice_def)
qed

lemma ret_if: "(c \<Longrightarrow> a \<noteq> None) \<Longrightarrow> (\<not> c \<Longrightarrow> b \<noteq> None) \<Longrightarrow> (if c then a else b) \<noteq> None"
  by simp

lemma ret_Some: "Some x \<noteq> None"
  by simp

lemma ret_GetInt32:
  assumes "Buffer.err b = None" "0 \<le> k" "k + 4 \<le> len (buf b)" "len (buf b) < 2 ^ 62"
    and "\<And>v. g v b \<noteq> None"
  shows "(GetInt32 k b \<bind> case_prod g) \<noteq> None"
  using GetInt32_returns [OF assms(1-4)] assms(5) by auto

lemma ret_meta:
  assumes "c \<Longrightarrow> \<exists>r. GetBuffer k n b = Some (r, b)" and "\<And>r. g r b \<noteq> None"
  shows "((if c then GetBuffer k n b else Some ([], b)) \<bind> case_prod g) \<noteq> None"
  using assms by (cases c) auto

lemma ret_slice:
  assumes "0 \<le> lo" "lo \<le> hi" "hi \<le> len s" and "\<And>x. f x \<noteq> None"
  shows "(go_slice s lo hi \<bind> f) \<noteq> None"
  using assms by (simp add: go_slice_def)

lemma ret_option:
  "a \<noteq> None \<Longrightarrow> (\<And>x. f x \<noteq> None) \<Longrightarrow> (case m of None \<Rightarrow> a | Some x \<Rightarrow> f x) \<noteq> None"
  by (cases m) simp_all

lemma add64_52_sint:
  "0 \<le> sint (v :: 32 word) \<Longrightarrow> add64 52 (sint v) = 52 + sint v"
  using sint_lt [of v] by (intro add64_id) (simp add: is_int_def)

lemma add64_52_0: "add64 52 0 = 52"
  by (simp add: add64_def wrap64_def)

lemma parse_header_returns:
  assumes "Buffer.err b0 = None" "len (buf b0) < 2 ^ 62"
  shows "parse_header X sig b0 p \<noteq> None"
proof -
  have g: "\<And>n. 0 < n \<Longrightarrow> 52 + n \<le> len (buf b0) \<Longrightarrow> \<exists>r. GetBuffer 52 n b0 = Some (r, b0)"
    using GetBuffer_returns [of b0 52] assms by simp
  show ?thesis
    unfolding parse_header_def Let_def
    by (intro ret_if ret_Some ret_GetInt32 ret_meta ret_slice ret_option)
      (use assms g in \<open>auto simp: BufferLength_def Bytes_def add64_52_sint add64_52_0\<close>)
qed

lemma DecompressReplace_returns:
  assumes lib: "\<And>src out e. len src < 2 ^ 61 \<Longrightarrow> NewReader_Read z src = Inr (out, e)
        \<Longrightarrow> len out < 2 ^ 61"
    and b: "Buffer.err b = None" "0 \<le> offset" "offset + sz \<le> len (buf b)" "len (buf b) < 2 ^ 61"
  shows "\<exists>n b'. DecompressReplace z offset sz b = Some (n, b')
           \<and> (Buffer.err b' = None \<longrightarrow>
                len (buf b') = len (buf b) - sz + n \<and> 0 \<le> n \<and> n < 2 ^ 61)"
proof (cases "sz \<le> 0")
  case True
  then have "DecompressInto z offset (if sz < 0 then 0 else sz) [] b
      = Some ([], b\<lparr>Buffer.err := Some ErrOffsetOutOfRange\<rparr>)"
    using b by (simp add: DecompressInto_def)
  then show ?thesis
    using b by (simp add: DecompressReplace_def)
next
  case False
  then have pos: "0 < sz" by simp
  have a1: "add64 offset sz = offset + sz"
    using b pos by (intro add64_id) (simp add: is_int_def)
  define src where "src = take (nat sz) (drop (nat offset) (buf b))"
  have s: "go_slice (buf b) offset (offset + sz) = Some src"
    using b pos by (simp add: go_slice_def src_def)
  have D: "DecompressInto z offset sz [] b =
      (case NewReader_Read z src of
         Inl e \<Rightarrow> Some ([], b\<lparr>Buffer.err := Some e\<rparr>)
       | Inr (out, e) \<Rightarrow> Some (out, if e \<noteq> None then b\<lparr>Buffer.err := e\<rparr> else b))"
    using b pos by (simp add: DecompressInto_def a1 s go_make_def split: sum.splits prod.splits)
  show ?thesis
  proof (cases "NewReader_Read z src")
    case (Inl e)
    then show ?thesis
      using b pos D by (simp add: DecompressReplace_def)
  next
    case (Inr r)
    obtain out e where r: "r = (out, e)" by (cases r)
    show ?thesis
    proof (cases e)
      case (Some x)
      then show ?thesis
        using b pos D Inr r by (simp add: DecompressReplace_def)
    next
      case None
      have DI: "DecompressInto z offset sz [] b = Some (out, b)"
        using D Inr r None by simp
      have "len src < 2 ^ 61" using b by (simp add: src_def len_def)
      then have lo: "len out < 2 ^ 61" using lib Inr r by blast
      have o0: "0 \<le> len out" by (simp add: len_def)
      have a2: "add64 offset (len out) = offset + len out"
        using b pos lo o0 by (intro add64_id) (simp add: is_int_def)
      have "\<exists>b2. (if len out > sz then InsertBytes (add64 offset sz) (sub64 (len out) sz) b
              else if len out < sz then DeleteBytes (add64 offset (len out)) (sub64 sz (len out)) b
              else Some b) = Some b2 \<and> Buffer.err b2 = None
              \<and> len (buf b2) = len (buf b) - sz + len out"
      proof -
        consider "len out > sz" | "len out < sz" | "len out = sz" by linarith
        then show ?thesis
        proof cases
          case 1
          have s1: "sub64 (len out) sz = len out - sz"
            using lo o0 pos 1 by (intro sub64_id) (simp add: is_int_def)
          have "InsertBytes (offset + sz) (len out - sz) b =
              Some (b\<lparr>buf := inserted (buf b) (nat (offset + sz)) (nat (len out - sz)),
                     dirty := True\<rparr>)"
            using b pos 1 lo by (intro InsertBytes_content) (simp_all add: is_int_def)
          moreover have "len (inserted (buf b) (nat (offset + sz)) (nat (len out - sz)))
              = len (buf b) - sz + len out"
            using b pos 1 by (simp add: len_def length_inserted)
          ultimately show ?thesis using 1 b by (simp add: a1 s1)
        next
          case 2
          have s1: "sub64 sz (len out) = sz - len out"
            using b o0 pos 2 by (intro sub64_id) (simp add: is_int_def)
          obtain b2 where "DeleteBytes (offset + len out) (sz - len out) b = Some b2"
            "Buffer.err b2 = None" "len (buf b2) = len (buf b) - (sz - len out)"
            using DeleteBytes_returns [of b "offset + len out" "sz - len out"] b o0 2 by auto
          then show ?thesis using 2 by (simp add: a2 s1)
        next
          case 3
          then show ?thesis using b by simp
        qed
      qed
      then obtain b2 where b2: "(if len out > sz
              then InsertBytes (add64 offset sz) (sub64 (len out) sz) b
              else if len out < sz then DeleteBytes (add64 offset (len out)) (sub64 sz (len out)) b
              else Some b) = Some b2" "Buffer.err b2 = None"
              "len (buf b2) = len (buf b) - sz + len out"
        by blast
      obtain a where a: "copy_into (buf b2) offset (offset + len out) out = Some a"
        "len a = len (buf b2)"
        using copy_into_returns [of offset "offset + len out" "buf b2" out] b b2 o0 by auto
      show ?thesis
        using b(1) pos DI b2 a o0 lo
        by (simp add: DecompressReplace_def a2)
    qed
  qed
qed

lemma importPvr_returns:
  assumes lib: "\<And>src out e. len src < 2 ^ 61 \<Longrightarrow> NewReader_Read z src = Inr (out, e)
        \<Longrightarrow> len out < 2 ^ 61"
    and d: "len d < 2 ^ 61"
  shows "importPvr X z (Some d) p \<noteq> None"
proof -
  define b0 where "b0 = Wrap (Some d)"
  have b0: "Buffer.err b0 = None" "buf b0 = d"
    by (simp_all add: b0_def Wrap_def)
  show ?thesis
  proof (cases "len d < 4")
    case True
    then show ?thesis
      using b0 unfolding importPvr_def b0_def [symmetric]
      by (simp add: Error_def BufferLength_def)
  next
    case False
    obtain v where g0: "GetInt32 0 b0 = Some (v, b0)"
      using GetInt32_returns [of b0 0] b0 d False by auto
    have start: "importPvr X z (Some d) p =
      (if sint v \<noteq> versionSig then
         (if sint v < 0x34 \<or> sint v > 2 ^ 25
            then Some (p\<lparr>Pvr.err := Some
                   (ErrFmt ''PVR target size outside of accepted limits: %d'' [sint v])\<rparr>)
          else
            do { (_, b) \<leftarrow> DecompressReplace z 4 (sub64 (BufferLength b0) 4) b0;
                 if Error b \<noteq> None then Some (p\<lparr>Pvr.err := Error b\<rparr>)
                 else
                   do { b \<leftarrow> DeleteBytes 0 4 b;
                        if BufferLength b < sint v
                          then Some (p\<lparr>Pvr.err := Some
                                 (ErrFmt ''PVRZ data size mismatch: %d != %d''
                                    [BufferLength b, sint v])\<rparr>)
                        else
                          do { b \<leftarrow> (if BufferLength b > sint v
                                      then DeleteBytes (sint v) (sub64 (BufferLength b) (sint v)) b
                                    else Some b);
                               (v, b) \<leftarrow> GetInt32 0 b;
                               parse_header X (sint v) b p } } })
       else parse_header X (sint v) b0 p)"
      using b0 False g0 unfolding importPvr_def b0_def [symmetric] Let_def
      by (simp add: Error_def BufferLength_def)
    show ?thesis
    proof (cases "sint v = versionSig")
      case True
      then show ?thesis
        using start parse_header_returns [of b0 X "sint v" p] b0 d by simp
    next
      case nsig: False
      show ?thesis
      proof (cases "sint v < 0x34 \<or> sint v > 2 ^ 25")
        case True
        then show ?thesis using start nsig by simp
      next
        case lim: False
        have s4: "sub64 (len (buf b0)) 4 = len d - 4"
          unfolding b0(2) using d False by (intro sub64_id) (simp add: is_int_def)
        obtain n b1 where dr: "DecompressReplace z 4 (len d - 4) b0 = Some (n, b1)"
          and b1: "Buffer.err b1 = None \<longrightarrow> len (buf b1) = 4 + n \<and> 0 \<le> n \<and> n < 2 ^ 61"
          using DecompressReplace_returns [of z b0 4 "len d - 4"] lib b0 d by auto
        show ?thesis
        proof (cases "Buffer.err b1 = None")
          case e1: False
          then show ?thesis
            using start nsig lim by (simp add: s4 dr Error_def BufferLength_def)
        next
          case e1: True
          obtain b2 where b2: "DeleteBytes 0 4 b1 = Some b2" "Buffer.err b2 = None"
            "len (buf b2) = n"
            using DeleteBytes_returns [of b1 0 4] b1 e1 by auto
          show ?thesis
          proof (cases "n < sint v")
            case True
            then show ?thesis
              using start nsig lim e1 by (simp add: s4 dr b2 Error_def BufferLength_def)
          next
            case ge: False
            show ?thesis
            proof (cases "n > sint v")
              case True
              have s: "sub64 n (sint v) = n - sint v"
                using b1 e1 lim True by (intro sub64_id) (simp add: is_int_def)
              obtain b3 where b3: "DeleteBytes (sint v) (n - sint v) b2 = Some b3"
                "Buffer.err b3 = None" "len (buf b3) = n - (n - sint v)"
                using DeleteBytes_returns [of b2 "sint v" "n - sint v"] b2 b1 e1 lim True
                by auto
              obtain v' where g3: "GetInt32 0 b3 = Some (v', b3)"
                using GetInt32_returns [of b3 0] b3 lim by auto
              have "parse_header X (sint v') b3 p \<noteq> None"
                using parse_header_returns [of b3 X "sint v'" p] b3 lim by simp
              then show ?thesis
                using start nsig lim e1 ge True
                by (simp add: s4 dr b2 s b3 g3 Error_def BufferLength_def)
            next
              case False
              obtain v' where g3: "GetInt32 0 b2 = Some (v', b2)"
                using GetInt32_returns [of b2 0] b2 b1 e1 lim ge False by auto
              have "parse_header X (sint v') b2 p \<noteq> None"
                using parse_header_returns [of b2 X "sint v'" p] b2 b1 e1 by simp
              then show ?thesis
                using start nsig lim e1 ge False
                by (simp add: s4 dr b2 g3 Error_def BufferLength_def)
            qed
          qed
        qed
      qed
    qed
  qed
qed


text \<open>
  Claim C4. If \<open>importPvr\<close>, started on a container without error, returns with the error
  set, then the container is the one before the call but for the error: header fields,
  metadata, image and encoding parameters are unchanged. In particular, input of at
  least four bytes whose first four bytes read (as a signed 32-bit value) a size \<open>S\<close>
  other than the signature with \<open>S < 0x34\<close> or \<open>S > 2^25\<close> makes \<open>importPvr\<close> return with
  the error set and nothing else changed. For \<open>Load\<close>, which imports into a new
  container, a failure leaves that new container with nothing but the error set.
  Moreover \<open>importPvr\<close> does return: it panics on no input below \<open>2^61\<close> bytes, as
  long as the stream decoder delivers less than \<open>2^61\<close> bytes on such input.
\<close>

theorem importPvr_failure_keeps_state:
  "(importPvr X z data p = Some p' \<and> Pvr.err p = None \<and> Pvr.err p' \<noteq> None \<longrightarrow>
       p' = p\<lparr>Pvr.err := Pvr.err p'\<rparr>
     \<and> info p' = info p \<and> img p' = img p \<and> quality p' = quality p
     \<and> weightByAlpha p' = weightByAlpha p \<and> useMetric p' = useMetric p)
   \<and> (4 \<le> len d \<and> GetInt32 0 (Wrap (Some d)) = Some (v, b) \<and> sint v \<noteq> versionSig
        \<and> (sint v < 0x34 \<or> sint v > 2 ^ 25) \<longrightarrow>
       importPvr X z (Some d) p = Some (p\<lparr>Pvr.err :=
         Some (ErrFmt ''PVR target size outside of accepted limits: %d'' [sint v])\<rparr>))
   \<and> (Pvr_Load X z r = Some q \<and> Pvr.err q \<noteq> None \<longrightarrow>
       q = (CreateNew X 0 0 TYPE_BC1)\<lparr>Pvr.err := Pvr.err q\<rparr>)
   \<and> ((\<forall>src out e. len src < 2 ^ 61 \<and> NewReader_Read z src = Inr (out, e) \<longrightarrow> len out < 2 ^ 61)
        \<and> len d < 2 ^ 61 \<longrightarrow>
       (\<exists>p'. importPvr X z (Some d) p = Some p') \<and> (\<exists>p'. importPvr X z None p = Some p'))"
proof (intro conjI impI)
  assume a: "importPvr X z data p = Some p' \<and> Pvr.err p = None \<and> Pvr.err p' \<noteq> None"
  then have "keeps p (Some p')"
    using importPvr_keeps [of p X z data] by simp
  then have e: "p' = p\<lparr>Pvr.err := Pvr.err p'\<rparr>"
    using a by (intro keeps_failed) simp_all
  show "p' = p\<lparr>Pvr.err := Pvr.err p'\<rparr>" by (rule e)
  show "info p' = info p" by (subst e) simp
  show "img p' = img p" by (subst e) simp
  show "quality p' = quality p" by (subst e) simp
  show "weightByAlpha p' = weightByAlpha p" by (subst e) simp
  show "useMetric p' = useMetric p" by (subst e) simp
next
  assume "4 \<le> len d \<and> GetInt32 0 (Wrap (Some d)) = Some (v, b) \<and> sint v \<noteq> versionSig
        \<and> (sint v < 0x34 \<or> sint v > 2 ^ 25)"
  then show "importPvr X z (Some d) p = Some (p\<lparr>Pvr.err :=
         Some (ErrFmt ''PVR target size outside of accepted limits: %d'' [sint v])\<rparr>)"
    by (intro importPvr_size_limits) simp_all
next
  assume a: "Pvr_Load X z r = Some q \<and> Pvr.err q \<noteq> None"
  define c where "c = CreateNew X 0 0 TYPE_BC1"
  have ce: "Pvr.err c = None" by (simp add: c_def CreateNew_def)
  show "q = (CreateNew X 0 0 TYPE_BC1)\<lparr>Pvr.err := Pvr.err q\<rparr>"
  proof (cases "snd r = None")
    case True
    then have "importPvr X z (Some (fst r)) c = Some q"
      using a by (simp add: Pvr_Load_def c_def Let_def)
    then have "keeps c (Some q)"
      using importPvr_keeps [of c X z "Some (fst r)"] by simp
    then show ?thesis
      using a ce unfolding c_def [symmetric] by (intro keeps_failed) simp_all
  next
    case False
    then show ?thesis
      using a by (auto simp: Pvr_Load_def Let_def)
  qed
next
  assume a: "(\<forall>src out e. len src < 2 ^ 61 \<and> NewReader_Read z src = Inr (out, e)
                \<longrightarrow> len out < 2 ^ 61) \<and> len d < 2 ^ 61"
  then have "importPvr X z (Some d) p \<noteq> None"
    by (intro importPvr_returns) blast+
  then show "\<exists>p'. importPvr X z (Some d) p = Some p'" by simp
next
  show "\<exists>p'. importPvr X z None p = Some p'" by (simp add: importPvr_def)
qed

theorem importPvr_failure_keeps_state_witness:
  "importPvr example_extern example_zlib (Some [0x50, 0x56, 0x52, 0x03]) example_Pvr
       = Some (example_Pvr\<lparr>Pvr.err := Some (ErrFmt ''PVR input buffer too small'' [])\<rparr>)
   \<and> Pvr.err example_Pvr = None
   \<and> Pvr.err (example_Pvr\<lparr>Pvr.err := Some (ErrFmt ''PVR input buffer too small'' [])\<rparr>) \<noteq> None
   \<and> info (example_Pvr\<lparr>Pvr.err := Some (ErrFmt ''PVR input buffer too small'' [])\<rparr>)
       = info example_Pvr
   \<and> 4 \<le> len [0x10 :: byte, 0, 0, 0]
   \<and> GetInt32 0 (Wrap (Some [0x10, 0, 0, 0])) = Some (16, Wrap (Some [0x10, 0, 0, 0]))
   \<and> sint (16 :: 32 word) \<noteq> versionSig
   \<and> (sint (16 :: 32 word) < 0x34 \<or> sint (16 :: 32 word) > 2 ^ 25)
   \<and> importPvr example_extern example_zlib (Some [0x10, 0, 0, 0]) example_Pvr
       = Some (example_Pvr\<lparr>Pvr.err := Some (ErrFmt ''PVR target size outside of accepted limits: %d'' [16])\<rparr>)
   \<and> Pvr_Load example_extern example_zlib ([0x10, 0, 0, 0], None)
       = Some ((CreateNew example_extern 0 0 TYPE_BC1)\<lparr>Pvr.err := Some (ErrFmt ''PVR target size outside of accepted limits: %d'' [16])\<rparr>)
   \<and> Pvr.err ((CreateNew example_extern 0 0 TYPE_BC1)\<lparr>Pvr.err := Some (ErrFmt ''PVR target size outside of accepted limits: %d'' [16])\<rparr>) \<noteq> None
   \<and> len [0x10 :: byte, 0, 0, 0] < 2 ^ 61"
proof -
  have g: "GetInt32 0 (Wrap (Some [0x50, 0x56, 0x52, 0x03]))
      = Some (0x03525650, Wrap (Some [0x50, 0x56, 0x52, 0x03]))"
    "GetInt32 0 (Wrap (Some [0x10, 0, 0, 0])) = Some (16, Wrap (Some [0x10, 0, 0, 0]))"
    by (simp_all add: GetInt32_def GetUint32_def Wrap_def len_def add64_def wrap64_def
        go_slice_def LE_Uint32_def go_index_def)
  have w: "Error (Wrap (Some [0x50, 0x56, 0x52, 0x03])) = None"
    "BufferLength (Wrap (Some [0x50, 0x56, 0x52, 0x03])) = 4"
    "Error (Wrap (Some [0x10, 0, 0, 0])) = None"
    "BufferLength (Wrap (Some [0x10, 0, 0, 0])) = 4"
    by (simp_all add: Wrap_def Error_def BufferLength_def len_def)
  have i1: "importPvr example_extern example_zlib (Some [0x50, 0x56, 0x52, 0x03]) example_Pvr
       = Some (example_Pvr\<lparr>Pvr.err := Some (ErrFmt ''PVR input buffer too small'' [])\<rparr>)"
    by (simp add: importPvr_def Let_def g w parse_header_def versionSig_def)
  have i2: "Pvr_Load example_extern example_zlib ([0x10, 0, 0, 0], None)
       = Some ((CreateNew example_extern 0 0 TYPE_BC1)\<lparr>Pvr.err := Some (ErrFmt ''PVR target size outside of accepted limits: %d'' [16])\<rparr>)"
    by (simp add: Pvr_Load_def importPvr_def Let_def g w versionSig_def)
  have e: "Pvr.err example_Pvr = None" by (simp add: example_Pvr_def)
  have l: "\<forall>src out e. len src < 2 ^ 61 \<and> NewReader_Read example_zlib src = Inr (out, e)
         \<longrightarrow> len out < 2 ^ 61"
    by (simp add: example_zlib_def)
  show ?thesis
    using importPvr_failure_keeps_state
      [of example_extern example_zlib "Some [0x50, 0x56, 0x52, 0x03]" example_Pvr
          "example_Pvr\<lparr>Pvr.err := Some (ErrFmt ''PVR input buffer too small'' [])\<rparr>"
          "[0x10, 0, 0, 0]" 16
          "Wrap (Some [0x10, 0, 0, 0])" "([0x10, 0, 0, 0], None)"
          "(CreateNew example_extern 0 0 TYPE_BC1)\<lparr>Pvr.err := Some (ErrFmt ''PVR target size outside of accepted limits: %d'' [16])\<rparr>"]
      i1 i2 g e l
    by (simp add: len_def versionSig_def)
qed

end
